theory Spec2Isabelle
  imports Main "HOL-Library.Sublist"
begin

section \<open>The environment of \<open>src/filesystem/lib.ts\<close>\<close>

text \<open>
  The library talks to the operating system through \<open>fs/promises\<close> and to Node's
  \<open>path\<close> module. The file system is a record that every operation takes and returns;
  each call is appended to \<open>log\<close>, so that "no file-system call was made" is the
  statement that the log did not grow.
\<close>

type_synonym path = string

type_synonym jsstring = "nat list"

datatype errno = ENOENT | EEXIST | EACCES | EISDIR | ENOTDIR | ELOOP | EIO

datatype node = File string | Link path | Dir

datatype fscall =
    Realpath path
  | Stat path
  | ReadFile path
  | WriteFileWx path string
  | WriteFile path string
  | Rename path path
  | Unlink path
  | Open path
  | ReadAt path nat nat
  | Close path
  | Readdir path
  | Access path

text \<open>
  A call can fail for a reason outside the model (an I/O error, a permission, a full
  disk): \<open>faults\<close> injects such a failure. A failed plain write may leave a file with
  part of the content behind (\<open>Torn\<close>); every other failed call changes nothing.
\<close>

datatype fault = Clean errno | Torn errno string

fun fault_errno :: "fault \<Rightarrow> errno" where
  "fault_errno (Clean e) = e"
| "fault_errno (Torn e s) = e"

record world =
  realpath_of :: "path \<Rightarrow> errno + path"
  nodes :: "path \<rightharpoonup> node"
  faults :: "fscall \<Rightarrow> fault option"
  log :: "fscall list"

definition logged :: "fscall \<Rightarrow> world \<Rightarrow> world" where
  "logged c w = w\<lparr>log := log w @ [c]\<rparr>"

text \<open>\<open>fs.realpath\<close>: the canonical path with every symbolic link followed, or an error.\<close>

definition fs_realpath :: "world \<Rightarrow> path \<Rightarrow> (errno + path) \<times> world" where
  "fs_realpath w p = (realpath_of w p, logged (Realpath p) w)"

text \<open>
  Node's \<open>path\<close> module and \<open>process.cwd()\<close>, and the two helpers of
  \<open>path-utils.js\<close> (\<open>expandHome\<close>, \<open>normalizePath\<close>), are parameters: the
  theorems hold for every choice of them.
\<close>


record penv =
  expandHome :: "string \<Rightarrow> string"
  normalizePath :: "string \<Rightarrow> string"
  isAbsolute :: "string \<Rightarrow> bool"
  resolve1 :: "string \<Rightarrow> string"
  resolve2 :: "string \<Rightarrow> string \<Rightarrow> string"
  cwd :: string
  dirname :: "string \<Rightarrow> string"
  basename :: "string \<Rightarrow> string"
  join :: "string \<Rightarrow> string \<Rightarrow> string"
  relative :: "string \<Rightarrow> string \<Rightarrow> string"
  sep :: string

text \<open>
  Modelled from the spec: \<open>isPathWithinAllowedDirectories\<close> of \<open>path-validation.js\<close>,
  which is not among the sources. The spec gives the containment test as: the path equals
  a root, or starts with root + separator.
\<close>

definition isPathWithinAllowedDirectories :: "penv \<Rightarrow> string \<Rightarrow> string list \<Rightarrow> bool" where
  "isPathWithinAllowedDirectories E p dirs = list_ex (\<lambda>d. p = d \<or> prefix (d @ sep E) p) dirs"

section \<open>Errors\<close>

text \<open>
  Every \<open>throw new Error(...)\<close> of the library is a constructor, named after the
  message it carries; an error of the file system keeps its code.
  \<^item> \<open>AccessDenied\<close>: "Access denied - path outside allowed directories: ..."
  \<^item> \<open>SymlinkEscape\<close>: "Access denied - symlink target outside allowed directories: ..."
  \<^item> \<open>ParentAccessDenied\<close>: "Access denied - parent directory outside allowed directories: ..."
  \<^item> \<open>ParentMissing\<close>: "Parent directory does not exist: ..."
  \<^item> \<open>NoMatchFound\<close>: "Could not find exact match for edit: ..."
\<close>

datatype error =
    AccessDenied string "string list"
  | SymlinkEscape string "string list"
  | ParentAccessDenied string "string list"
  | ParentMissing string
  | NoMatchFound jsstring
  | InvalidPattern string
  | NotFileOrDirectory string
  | SysError errno

text \<open>\<open>(error as NodeJS.ErrnoException).code\<close>: only file-system errors have one.\<close>

fun code :: "error \<Rightarrow> errno option" where
  "code (SysError e) = Some e"
| "code _ = None"

section \<open>validatePath\<close>

definition absolute_of :: "penv \<Rightarrow> string \<Rightarrow> string" where
  "absolute_of E requestedPath =
     (let expandedPath = expandHome E requestedPath
      in if isAbsolute E expandedPath then resolve1 E expandedPath
         else resolve2 E (cwd E) expandedPath)"

text \<open>
  The inner \<open>try\<close> of the not-found branch: resolve the parent directory and test it.
  Its \<open>catch\<close> has no binding and no test: whatever was thrown inside, also the
  "parent directory outside allowed directories" error, is replaced.
\<close>

definition validateParent ::
  "penv \<Rightarrow> string list \<Rightarrow> world \<Rightarrow> string \<Rightarrow> (error + string) \<times> world" where
  "validateParent E allowedDirectories w absolute =
     (let parentDir = dirname E absolute;
          (r, w') = fs_realpath w parentDir;
          tried = (case r of
                     Inl e \<Rightarrow> Inl (SysError e)
                   | Inr realParentPath \<Rightarrow>
                       if \<not> isPathWithinAllowedDirectories E (normalizePath E realParentPath) allowedDirectories
                       then Inl (ParentAccessDenied realParentPath allowedDirectories)
                       else Inr absolute)
      in (case tried of
            Inl _ \<Rightarrow> (Inl (ParentMissing parentDir), w')
          | Inr v \<Rightarrow> (Inr v, w')))"

definition validatePath ::
  "penv \<Rightarrow> string list \<Rightarrow> world \<Rightarrow> string \<Rightarrow> (error + string) \<times> world" where
  "validatePath E allowedDirectories w requestedPath =
     (let absolute = absolute_of E requestedPath;
          normalizedRequested = normalizePath E absolute
      in if \<not> isPathWithinAllowedDirectories E normalizedRequested allowedDirectories
         then (Inl (AccessDenied absolute allowedDirectories), w)
         else
           (let (r, w') = fs_realpath w absolute;
                tried = (case r of
                           Inl e \<Rightarrow> Inl (SysError e)
                         | Inr realPath \<Rightarrow>
                             if \<not> isPathWithinAllowedDirectories E (normalizePath E realPath) allowedDirectories
                             then Inl (SymlinkEscape realPath allowedDirectories)
                             else Inr realPath)
            in (case tried of
                  Inr v \<Rightarrow> (Inr v, w')
                | Inl err \<Rightarrow>
                    if code err = Some ENOENT
                    then validateParent E allowedDirectories w' absolute
                    else (Inl err, w'))))"

section \<open>The allow-list and its accessors\<close>

text \<open>
  JavaScript arrays are objects shared by reference. The heap is a list of arrays, an
  address is an index into it, and the module variable \<open>allowedDirectories\<close> holds an
  address. The spread \<open>[...xs]\<close> allocates a new array with the elements of \<open>xs\<close>.
\<close>

type_synonym addr = nat

record module_state =
  heap :: "string list list"
  allowedDirectories :: addr

definition spread :: "string list list \<Rightarrow> addr \<Rightarrow> addr \<times> string list list" where
  "spread h a = (length h, h @ [h ! a])"

definition setAllowedDirectories :: "module_state \<Rightarrow> addr \<Rightarrow> module_state" where
  "setAllowedDirectories m directories =
     (let (a, h) = spread (heap m) directories
      in m\<lparr>heap := h, allowedDirectories := a\<rparr>)"

definition getAllowedDirectories :: "module_state \<Rightarrow> addr \<times> module_state" where
  "getAllowedDirectories m =
     (let (a, h) = spread (heap m) (allowedDirectories m)
      in (a, m\<lparr>heap := h\<rparr>))"

text \<open>A caller overwrites the array it holds (push, splice, index assignment, ...).\<close>

definition mutate :: "addr \<Rightarrow> string list \<Rightarrow> module_state \<Rightarrow> module_state" where
  "mutate a xs m = m\<lparr>heap := (heap m)[a := xs]\<rparr>"

text \<open>\<open>validatePath\<close> as the module runs it: against the array the module variable points to.\<close>

definition validatePath_in ::
  "penv \<Rightarrow> module_state \<Rightarrow> world \<Rightarrow> string \<Rightarrow> (error + string) \<times> world" where
  "validatePath_in E m w requestedPath =
     validatePath E (heap m ! allowedDirectories m) w requestedPath"

section \<open>File-system calls\<close>

text \<open>
  Calls that follow symbolic links resolve their path first; a chain longer than the
  system's limit is the error \<open>ELOOP\<close>.
\<close>

fun follow :: "(path \<rightharpoonup> node) \<Rightarrow> nat \<Rightarrow> path \<Rightarrow> errno + path" where
  "follow m 0 p = Inl ELOOP"
| "follow m (Suc k) p = (case m p of Some (Link t) \<Rightarrow> follow m k t | _ \<Rightarrow> Inr p)"

definition SYMLOOP_MAX :: nat where
  "SYMLOOP_MAX = 40"

text \<open>
  \<open>fs.writeFile(p, c, {flag: 'wx'})\<close>: exclusive creation. It fails with \<open>EEXIST\<close>
  when anything, also a symbolic link, is at \<open>p\<close>; it never follows a link.
\<close>

definition fs_writeFile_wx :: "world \<Rightarrow> path \<Rightarrow> string \<Rightarrow> (errno + unit) \<times> world" where
  "fs_writeFile_wx w p c =
     (let w' = logged (WriteFileWx p c) w
      in case nodes w p of
           Some n \<Rightarrow> (Inl EEXIST, w')
         | None \<Rightarrow>
             (case faults w (WriteFileWx p c) of
                Some (Clean e) \<Rightarrow> (Inl e, w')
              | Some (Torn e s) \<Rightarrow> (Inl e, w'\<lparr>nodes := (nodes w)(p \<mapsto> File s)\<rparr>)
              | None \<Rightarrow> (Inr (), w'\<lparr>nodes := (nodes w)(p \<mapsto> File c)\<rparr>)))"

text \<open>\<open>fs.writeFile(p, c, 'utf-8')\<close>: create or truncate, through symbolic links.\<close>

definition fs_writeFile :: "world \<Rightarrow> path \<Rightarrow> string \<Rightarrow> (errno + unit) \<times> world" where
  "fs_writeFile w p c =
     (let w' = logged (WriteFile p c) w
      in case follow (nodes w) SYMLOOP_MAX p of
           Inl e \<Rightarrow> (Inl e, w')
         | Inr q \<Rightarrow>
             if nodes w q = Some Dir then (Inl EISDIR, w')
             else (case faults w (WriteFile p c) of
                     Some (Clean e) \<Rightarrow> (Inl e, w')
                   | Some (Torn e s) \<Rightarrow> (Inl e, w'\<lparr>nodes := (nodes w)(q \<mapsto> File s)\<rparr>)
                   | None \<Rightarrow> (Inr (), w'\<lparr>nodes := (nodes w)(q \<mapsto> File c)\<rparr>)))"

text \<open>\<open>fs.rename(a, b)\<close>: \<open>b\<close> is replaced by what is at \<open>a\<close>, a link at \<open>b\<close> not followed.\<close>

definition fs_rename :: "world \<Rightarrow> path \<Rightarrow> path \<Rightarrow> (errno + unit) \<times> world" where
  "fs_rename w a b =
     (let w' = logged (Rename a b) w
      in case faults w (Rename a b) of
           Some f \<Rightarrow> (Inl (fault_errno f), w')
         | None \<Rightarrow>
             (case nodes w a of
                None \<Rightarrow> (Inl ENOENT, w')
              | Some n \<Rightarrow>
                  if a = b then (Inr (), w')
                  else if nodes w b = Some Dir \<and> n \<noteq> Dir then (Inl EISDIR, w')
                  else if n = Dir \<and> nodes w b \<noteq> None \<and> nodes w b \<noteq> Some Dir then (Inl ENOTDIR, w')
                  else (Inr (), w'\<lparr>nodes := (nodes w)(b \<mapsto> n, a := None)\<rparr>)))"

text \<open>\<open>fs.unlink(p)\<close>: when it succeeds, nothing is at \<open>p\<close> any more.\<close>

definition fs_unlink :: "world \<Rightarrow> path \<Rightarrow> (errno + unit) \<times> world" where
  "fs_unlink w p =
     (let w' = logged (Unlink p) w
      in case faults w (Unlink p) of
           Some f \<Rightarrow> (Inl (fault_errno f), w')
         | None \<Rightarrow>
             (case nodes w p of
                None \<Rightarrow> (Inl ENOENT, w')
              | Some Dir \<Rightarrow> (Inl EISDIR, w')
              | Some n \<Rightarrow> (Inr (), w'\<lparr>nodes := (nodes w)(p := None)\<rparr>)))"

text \<open>The node a reading call reaches, links followed.\<close>

definition lookup :: "world \<Rightarrow> fscall \<Rightarrow> path \<Rightarrow> errno + node" where
  "lookup w c p =
     (case faults w c of
        Some f \<Rightarrow> Inl (fault_errno f)
      | None \<Rightarrow>
          (case follow (nodes w) SYMLOOP_MAX p of
             Inl e \<Rightarrow> Inl e
           | Inr q \<Rightarrow> (case nodes w q of None \<Rightarrow> Inl ENOENT | Some n \<Rightarrow> Inr n)))"

text \<open>\<open>fs.readFile(p, 'utf-8')\<close>. Content is a string of bytes; decoding is the identity.\<close>

definition fs_readFile :: "world \<Rightarrow> path \<Rightarrow> (errno + string) \<times> world" where
  "fs_readFile w p =
     (case lookup w (ReadFile p) p of
        Inl e \<Rightarrow> (Inl e, logged (ReadFile p) w)
      | Inr (File c) \<Rightarrow> (Inr c, logged (ReadFile p) w)
      | Inr n \<Rightarrow> (Inl EISDIR, logged (ReadFile p) w))"

section \<open>writeFileContent\<close>

text \<open>
  \<open>randomBytes(16).toString('hex')\<close> is the argument \<open>rnd\<close>: the theorems hold for
  every value of it.
\<close>

definition tempPathOf :: "path \<Rightarrow> string \<Rightarrow> path" where
  "tempPathOf filePath rnd = filePath @ ''.'' @ rnd @ ''.tmp''"

text \<open>
  The body shared by both writers: write the temp file, rename it onto the target; the
  \<open>catch\<close> unlinks the temp file, ignores what the unlink reports and rethrows.
\<close>

definition replaceViaTemp :: "world \<Rightarrow> path \<Rightarrow> path \<Rightarrow> string \<Rightarrow> (error + unit) \<times> world" where
  "replaceViaTemp w tempPath filePath content =
     (let (tried, w2) =
            (case fs_writeFile w tempPath content of
               (Inl e, w1) \<Rightarrow> (Inl e, w1)
             | (Inr u, w1) \<Rightarrow> fs_rename w1 tempPath filePath)
      in case tried of
           Inr u \<Rightarrow> (Inr (), w2)
         | Inl renameError \<Rightarrow> (Inl (SysError renameError), snd (fs_unlink w2 tempPath)))"

definition writeFileContent :: "world \<Rightarrow> string \<Rightarrow> path \<Rightarrow> string \<Rightarrow> (error + unit) \<times> world" where
  "writeFileContent w rnd filePath content =
     (case fs_writeFile_wx w filePath content of
        (Inr u, w1) \<Rightarrow> (Inr (), w1)
      | (Inl e, w1) \<Rightarrow>
          if e = EEXIST
          then replaceViaTemp w1 (tempPathOf filePath rnd) filePath content
          else (Inl (SysError e), w1))"

section \<open>Strings\<close>

text \<open>
  What the file system holds and what the reading loops split is a list of bytes. The
  string methods used on it are written out: \<open>replace(/\r\n/g, '\n')\<close>,
  \<open>indexOf\<close>, \<open>includes\<close>, \<open>split('\n')\<close> and \<open>join('\n')\<close>.
\<close>

definition LF :: char where
  "LF = CHR 0x0A"

definition CR :: char where
  "CR = CHR 0x0D"

fun normalizeLineEndings :: "string \<Rightarrow> string" where
  "normalizeLineEndings (c # d # cs) =
     (if c = CR \<and> d = LF then LF # normalizeLineEndings cs
      else c # normalizeLineEndings (d # cs))"
| "normalizeLineEndings cs = cs"

fun indexOf :: "'a list \<Rightarrow> 'a list \<Rightarrow> nat option" where
  "indexOf [] sub = (if sub = [] then Some 0 else None)"
| "indexOf (c # cs) sub =
     (if prefix sub (c # cs) then Some 0 else map_option Suc (indexOf cs sub))"

definition includes_str :: "'a list \<Rightarrow> 'a list \<Rightarrow> bool" where
  "includes_str s sub = (indexOf s sub \<noteq> None)"

fun split_lines :: "string \<Rightarrow> string list" where
  "split_lines [] = [[]]"
| "split_lines (c # cs) =
     (if c = LF then [] # split_lines cs
      else (case split_lines cs of
              [] \<Rightarrow> [[c]]
            | l # ls \<Rightarrow> (c # l) # ls))"

fun join_lines :: "string list \<Rightarrow> string" where
  "join_lines [] = []"
| "join_lines [l] = l"
| "join_lines (l # m # ls) = l @ LF # join_lines (m # ls)"

section \<open>JavaScript strings\<close>

text \<open>
  Where the library trims white space or counts the length of an indentation, what
  matters is the JavaScript string itself: a list of UTF-16 code units (\<open>jsstring\<close>).
  Reading a file with the encoding \<open>utf-8\<close> decodes its bytes to such a string and
  writing one encodes it; the decoder and the encoder of the runtime are the parameters
  \<open>decode\<close> and \<open>encode\<close>. \<open>lit\<close> is a literal of the source, which is ASCII.
\<close>

record codec =
  decode :: "string \<Rightarrow> jsstring"
  encode :: "jsstring \<Rightarrow> string"

definition lit :: "string \<Rightarrow> jsstring" where
  "lit s = map of_char s"

fun js_normalizeLineEndings :: "jsstring \<Rightarrow> jsstring" where
  "js_normalizeLineEndings (c # d # cs) =
     (if c = 13 \<and> d = 10 then 10 # js_normalizeLineEndings cs
      else c # js_normalizeLineEndings (d # cs))"
| "js_normalizeLineEndings cs = cs"

fun js_split_lines :: "jsstring \<Rightarrow> jsstring list" where
  "js_split_lines [] = [[]]"
| "js_split_lines (c # cs) =
     (if c = 10 then [] # js_split_lines cs
      else (case js_split_lines cs of
              [] \<Rightarrow> [[c]]
            | l # ls \<Rightarrow> (c # l) # ls))"

fun js_join_lines :: "jsstring list \<Rightarrow> jsstring" where
  "js_join_lines [] = []"
| "js_join_lines [l] = l"
| "js_join_lines (l # m # ls) = l @ 10 # js_join_lines (m # ls)"

text \<open>
  The replacement text of \<open>String.prototype.replace\<close> is not taken literally, also
  when the pattern is a string: \<open>$$\<close> (36 36) is a dollar sign, \<open>$&\<close> (36 38) the
  matched text, dollar and backtick (36 96) what precedes the match and dollar and
  apostrophe (36 39) what follows it. A string pattern has no capture groups, so
  \<open>$1\<close> and \<open>$<name>\<close> stay as they are.
\<close>

fun getSubstitution :: "jsstring \<Rightarrow> jsstring \<Rightarrow> jsstring \<Rightarrow> jsstring \<Rightarrow> jsstring" where
  "getSubstitution matched preceding following (c # d # cs) =
     (if c = 36 then
        (if d = 36 then 36 # getSubstitution matched preceding following cs
         else if d = 38 then matched @ getSubstitution matched preceding following cs
         else if d = 96 then preceding @ getSubstitution matched preceding following cs
         else if d = 39 then following @ getSubstitution matched preceding following cs
         else c # getSubstitution matched preceding following (d # cs))
      else c # getSubstitution matched preceding following (d # cs))"
| "getSubstitution matched preceding following cs = cs"

definition replace :: "jsstring \<Rightarrow> jsstring \<Rightarrow> jsstring \<Rightarrow> jsstring" where
  "replace s pat repl =
     (case indexOf s pat of
        None \<Rightarrow> s
      | Some i \<Rightarrow>
          take i s
          @ getSubstitution pat (take i s) (drop (i + length pat) s) repl
          @ drop (i + length pat) s)"

text \<open>
  The code units that \<open>trim\<close>, \<open>trimStart\<close> and the class \<open>\s\<close> take for white
  space: the WhiteSpace and LineTerminator productions of ECMAScript, that is TAB, LF,
  VT, FF, CR, U+FEFF, U+2028, U+2029 and the space separators U+0020, U+00A0, U+1680,
  U+2000 to U+200A, U+202F, U+205F and U+3000.
\<close>

definition isWhiteSpace :: "nat \<Rightarrow> bool" where
  "isWhiteSpace c =
     (c = 0x09 \<or> c = 0x0A \<or> c = 0x0B \<or> c = 0x0C \<or> c = 0x0D \<or> c = 0x20 \<or> c = 0xA0
      \<or> c = 0x1680 \<or> (0x2000 \<le> c \<and> c \<le> 0x200A) \<or> c = 0x2028 \<or> c = 0x2029
      \<or> c = 0x202F \<or> c = 0x205F \<or> c = 0x3000 \<or> c = 0xFEFF)"

definition trimStart :: "jsstring \<Rightarrow> jsstring" where
  "trimStart s = dropWhile isWhiteSpace s"

definition trim :: "jsstring \<Rightarrow> jsstring" where
  "trim s = rev (dropWhile isWhiteSpace (rev (dropWhile isWhiteSpace s)))"

text \<open>\<open>line.match(/^\s*/)?.[0] || ''\<close>: the leading white space of a line.\<close>

definition indentOf :: "jsstring \<Rightarrow> jsstring" where
  "indentOf line = takeWhile isWhiteSpace line"

section \<open>applyFileEdits\<close>

record FileEdit =
  oldText :: jsstring
  newText :: jsstring

text \<open>
  \<open>oldLines.every((oldLine, j) => oldLine.trim() === potentialMatch[j].trim())\<close>; the
  window \<open>potentialMatch\<close> has as many lines as \<open>oldLines\<close>.
\<close>

definition isMatch :: "jsstring list \<Rightarrow> jsstring list \<Rightarrow> bool" where
  "isMatch oldLines potentialMatch =
     list_all2 (\<lambda>oldLine contentLine. trim oldLine = trim contentLine) oldLines potentialMatch"

text \<open>The callback of \<open>normalizedNew.split('\n').map((line, j) => ...)\<close>.\<close>

definition reindent :: "jsstring \<Rightarrow> jsstring list \<Rightarrow> nat \<times> jsstring \<Rightarrow> jsstring" where
  "reindent originalIndent oldLines jl =
     (let j = fst jl; line = snd jl
      in if j = 0 then originalIndent @ trimStart line
         else
           (let oldIndent = (if j < length oldLines then indentOf (oldLines ! j) else []);
                newIndent = indentOf line
            in if oldIndent \<noteq> [] \<and> newIndent \<noteq> []
               then (let relativeIndent = int (length newIndent) - int (length oldIndent)
                     in originalIndent @ replicate (nat (max 0 relativeIndent)) 0x20
                        @ trimStart line)
               else line))"

text \<open>
  The loop \<open>for (let i = 0; i <= contentLines.length - oldLines.length; i++)\<close>; on the
  first window that matches, the lines of the document with the window replaced.
\<close>

function matchWindow ::
  "jsstring list \<Rightarrow> jsstring list \<Rightarrow> jsstring \<Rightarrow> nat \<Rightarrow> jsstring list option" where
  "matchWindow contentLines oldLines normalizedNew i =
     (if int i \<le> int (length contentLines) - int (length oldLines)
      then (let potentialMatch = take (length oldLines) (drop i contentLines)
            in if isMatch oldLines potentialMatch
               then (let originalIndent = indentOf (contentLines ! i);
                         newLines = map (reindent originalIndent oldLines)
                                        (enumerate 0 (js_split_lines normalizedNew))
                     in Some (take i contentLines @ newLines
                              @ drop (i + length oldLines) contentLines))
               else matchWindow contentLines oldLines normalizedNew (i + 1))
      else None)"
  by pat_completeness auto
termination
  by (relation "measure (\<lambda>(contentLines, oldLines, normalizedNew, i). length contentLines + 1 - i)")
     auto

definition applyEdit :: "jsstring \<Rightarrow> FileEdit \<Rightarrow> error + jsstring" where
  "applyEdit modifiedContent edit =
     (let normalizedOld = js_normalizeLineEndings (oldText edit);
          normalizedNew = js_normalizeLineEndings (newText edit)
      in if includes_str modifiedContent normalizedOld
         then Inr (replace modifiedContent normalizedOld normalizedNew)
         else (case matchWindow (js_split_lines modifiedContent) (js_split_lines normalizedOld)
                      normalizedNew 0 of
                 Some contentLines \<Rightarrow> Inr (js_join_lines contentLines)
               | None \<Rightarrow> Inl (NoMatchFound (oldText edit))))"

fun applyEdits :: "jsstring \<Rightarrow> FileEdit list \<Rightarrow> error + jsstring" where
  "applyEdits modifiedContent [] = Inr modifiedContent"
| "applyEdits modifiedContent (edit # edits) =
     (case applyEdit modifiedContent edit of
        Inl err \<Rightarrow> Inl err
      | Inr modifiedContent' \<Rightarrow> applyEdits modifiedContent' edits)"

text \<open>
  \<open>createTwoFilesPatch\<close> of the \<open>diff\<close> package is the parameter \<open>patch\<close>, applied to
  the file name twice, the two texts and the two headers.
\<close>

type_synonym twoFilesPatch =
  "string \<Rightarrow> string \<Rightarrow> jsstring \<Rightarrow> jsstring \<Rightarrow> string \<Rightarrow> string \<Rightarrow> jsstring"

definition createUnifiedDiff :: "twoFilesPatch \<Rightarrow> jsstring \<Rightarrow> jsstring \<Rightarrow> string \<Rightarrow> jsstring" where
  "createUnifiedDiff patch originalContent newContent filepath =
     patch filepath filepath (js_normalizeLineEndings originalContent)
       (js_normalizeLineEndings newContent) ''original'' ''modified''"

text \<open>\<open>while (diff.includes('`'.repeat(numBackticks))) numBackticks++\<close>\<close>

function numBackticks :: "jsstring \<Rightarrow> nat \<Rightarrow> nat" where
  "numBackticks diff n =
     (if includes_str diff (replicate n 96) then numBackticks diff (n + 1) else n)"
  by pat_completeness auto
termination
proof (relation "measure (\<lambda>(diff, n). length diff + 1 - n)")
  show "wf (measure (\<lambda>(diff, n). length diff + 1 - n))" by simp
next
  fix diff :: jsstring and n :: nat
  have bound: "indexOf s sub = Some i \<Longrightarrow> i + length sub \<le> length s"
    for s sub :: jsstring and i
  proof (induction s arbitrary: i)
    case Nil
    then show ?case by (simp split: if_splits)
  next
    case (Cons c cs)
    then show ?case
      by (auto dest: prefix_length_le split: if_splits)
  qed
  assume "includes_str diff (replicate n 96)"
  then obtain i where "indexOf diff (replicate n 96) = Some i"
    by (auto simp: includes_str_def)
  from bound [OF this] have "n \<le> length diff" by simp
  then show "((diff, n + 1), (diff, n)) \<in> measure (\<lambda>(diff, n). length diff + 1 - n)"
    by simp
qed

text \<open>
  The file is read with the encoding \<open>utf-8\<close> and the new content is written with it:
  the edits work on the decoded string.
\<close>

definition applyFileEdits ::
  "codec \<Rightarrow> twoFilesPatch \<Rightarrow> world \<Rightarrow> string \<Rightarrow> path \<Rightarrow> FileEdit list \<Rightarrow> bool
     \<Rightarrow> (error + jsstring) \<times> world" where
  "applyFileEdits C patch w rnd filePath edits dryRun =
     (case fs_readFile w filePath of
        (Inl e, w1) \<Rightarrow> (Inl (SysError e), w1)
      | (Inr raw, w1) \<Rightarrow>
          (let content = js_normalizeLineEndings (decode C raw)
           in case applyEdits content edits of
                Inl err \<Rightarrow> (Inl err, w1)
              | Inr modifiedContent \<Rightarrow>
                  (let diff = createUnifiedDiff patch content modifiedContent filePath;
                       k = numBackticks diff 3;
                       formattedDiff = replicate k 96 @ lit ''diff'' @ [10] @ diff
                                       @ replicate k 96 @ [10, 10]
                   in if \<not> dryRun
                      then (case replaceViaTemp w1 (tempPathOf filePath rnd) filePath
                                   (encode C modifiedContent) of
                              (Inl err, w2) \<Rightarrow> (Inl err, w2)
                            | (Inr u, w2) \<Rightarrow> (Inr formattedDiff, w2))
                      else (Inr formattedDiff, w1))))"

section \<open>tailFile and headFile\<close>

record stats =
  size :: nat
  isFile :: bool
  isDirectory :: bool

text \<open>\<open>fs.stat(p)\<close>, links followed. The size of a file is the length of its content.\<close>

definition fs_stat :: "world \<Rightarrow> path \<Rightarrow> (errno + stats) \<times> world" where
  "fs_stat w p =
     (case lookup w (Stat p) p of
        Inl e \<Rightarrow> (Inl e, logged (Stat p) w)
      | Inr (File c) \<Rightarrow>
          (Inr \<lparr>size = length c, isFile = True, isDirectory = False\<rparr>, logged (Stat p) w)
      | Inr n \<Rightarrow>
          (Inr \<lparr>size = 4096, isFile = False, isDirectory = True\<rparr>, logged (Stat p) w))"

text \<open>\<open>fs.open(p, 'r')\<close>: the handle is the path the links lead to.\<close>

definition fs_open :: "world \<Rightarrow> path \<Rightarrow> (errno + path) \<times> world" where
  "fs_open w p =
     (case faults w (Open p) of
        Some f \<Rightarrow> (Inl (fault_errno f), logged (Open p) w)
      | None \<Rightarrow>
          (case follow (nodes w) SYMLOOP_MAX p of
             Inl e \<Rightarrow> (Inl e, logged (Open p) w)
           | Inr q \<Rightarrow>
               (case nodes w q of
                  None \<Rightarrow> (Inl ENOENT, logged (Open p) w)
                | Some n \<Rightarrow> (Inr q, logged (Open p) w))))"

text \<open>
  \<open>fileHandle.read(chunk, 0, length, position)\<close>: the bytes of the file from
  \<open>position\<close>, at most \<open>length\<close> of them; \<open>bytesRead\<close> is how many there are.
\<close>

definition fs_read :: "world \<Rightarrow> path \<Rightarrow> nat \<Rightarrow> nat \<Rightarrow> (errno + string) \<times> world" where
  "fs_read w fh len position =
     (case faults w (ReadAt fh position len) of
        Some f \<Rightarrow> (Inl (fault_errno f), logged (ReadAt fh position len) w)
      | None \<Rightarrow>
          (case nodes w fh of
             Some (File c) \<Rightarrow> (Inr (take len (drop position c)), logged (ReadAt fh position len) w)
           | Some n \<Rightarrow> (Inl EISDIR, logged (ReadAt fh position len) w)
           | None \<Rightarrow> (Inl ENOENT, logged (ReadAt fh position len) w)))"

definition fs_close :: "world \<Rightarrow> path \<Rightarrow> (errno + unit) \<times> world" where
  "fs_close w fh =
     (case faults w (Close fh) of
        Some f \<Rightarrow> (Inl (fault_errno f), logged (Close fh) w)
      | None \<Rightarrow> (Inr (), logged (Close fh) w))"

text \<open>\<open>try { ... } finally { await fileHandle.close(); }\<close>: an error of the close wins.\<close>

definition finally_close ::
  "(errno + 'a) \<times> world \<Rightarrow> path \<Rightarrow> (error + 'a) \<times> world" where
  "finally_close rw fh =
     (let (closed, w') = fs_close (snd rw) fh
      in case closed of
           Inl e \<Rightarrow> (Inl (SysError e), w')
         | Inr u \<Rightarrow> (case fst rw of Inl e \<Rightarrow> (Inl (SysError e), w') | Inr v \<Rightarrow> (Inr v, w')))"

definition CHUNK_SIZE :: nat where
  "CHUNK_SIZE = 1024"

text \<open>
  \<open>for (let i = chunkLines.length - 1; i >= 0 && linesFound < numLines; i--)\<close>, over
  the lines of the chunk from the last to the first.
\<close>

fun unshiftLines :: "string list \<Rightarrow> string list \<Rightarrow> int \<Rightarrow> int \<Rightarrow> string list \<times> int" where
  "unshiftLines [] lines linesFound numLines = (lines, linesFound)"
| "unshiftLines (l # rest) lines linesFound numLines =
     (if linesFound < numLines
      then unshiftLines rest (l # lines) (linesFound + 1) numLines
      else (lines, linesFound))"

function tailLoop ::
  "world \<Rightarrow> path \<Rightarrow> int \<Rightarrow> nat \<Rightarrow> string list \<Rightarrow> int \<Rightarrow> string \<Rightarrow> (errno + string list) \<times> world" where
  "tailLoop w fh numLines position lines linesFound remainingText =
     (if position > 0 \<and> linesFound < numLines
      then (let sz = min CHUNK_SIZE position;
                position' = position - sz;
                (r, w') = fs_read w fh sz position'
            in case r of
                 Inl e \<Rightarrow> (Inl e, w')
               | Inr readData \<Rightarrow>
                   if length readData = 0 then (Inr lines, w')
                   else
                     (let chunkText = readData @ remainingText;
                          chunkLines = split_lines (normalizeLineEndings chunkText);
                          remainingText' = (if position' > 0 then hd chunkLines else remainingText);
                          chunkLines' = (if position' > 0 then tl chunkLines else chunkLines);
                          (lines', linesFound') =
                             unshiftLines (rev chunkLines') lines linesFound numLines
                      in tailLoop w' fh numLines position' lines' linesFound' remainingText'))
      else (Inr lines, w))"
  by pat_completeness auto
termination
  by (relation "measure (\<lambda>(w, fh, numLines, position, lines, linesFound, remainingText). position)")
     (auto simp: CHUNK_SIZE_def)

definition tailFile :: "world \<Rightarrow> path \<Rightarrow> int \<Rightarrow> (error + string) \<times> world" where
  "tailFile w filePath numLines =
     (case fs_stat w filePath of
        (Inl e, w1) \<Rightarrow> (Inl (SysError e), w1)
      | (Inr st, w1) \<Rightarrow>
          (let fileSize = size st
           in if fileSize = 0 then (Inr [], w1)
              else (case fs_open w1 filePath of
                      (Inl e, w2) \<Rightarrow> (Inl (SysError e), w2)
                    | (Inr fileHandle, w2) \<Rightarrow>
                        (let (r, w3) = tailLoop w2 fileHandle numLines fileSize [] 0 []
                         in finally_close (map_sum (\<lambda>e. e) join_lines r, w3) fileHandle))))"

fun lastIndexOf :: "string \<Rightarrow> char \<Rightarrow> nat option" where
  "lastIndexOf [] c = None"
| "lastIndexOf (x # xs) c =
     (case lastIndexOf xs c of
        Some i \<Rightarrow> Some (Suc i)
      | None \<Rightarrow> if x = c then Some 0 else None)"

text \<open>\<open>for (const line of completeLines) { lines.push(line); if (lines.length >= numLines) break; }\<close>\<close>

fun pushLines :: "string list \<Rightarrow> string list \<Rightarrow> int \<Rightarrow> string list" where
  "pushLines [] lines numLines = lines"
| "pushLines (line # rest) lines numLines =
     (if int (length (lines @ [line])) \<ge> numLines then lines @ [line]
      else pushLines rest (lines @ [line]) numLines)"

definition fileLength :: "world \<Rightarrow> path \<Rightarrow> nat" where
  "fileLength w fh = (case nodes w fh of Some (File c) \<Rightarrow> length c | _ \<Rightarrow> 0)"

function headLoop ::
  "world \<Rightarrow> path \<Rightarrow> int \<Rightarrow> string list \<Rightarrow> string \<Rightarrow> nat \<Rightarrow> (errno + string list \<times> string) \<times> world" where
  "headLoop w fh numLines lines buffer bytesRead =
     (if int (length lines) < numLines
      then (case fs_read w fh 1024 bytesRead of
              (Inl e, w') \<Rightarrow> (Inl e, w')
            | (Inr readData, w') \<Rightarrow>
                if length readData = 0 then (Inr (lines, buffer), w')
                else
                  (case lastIndexOf (buffer @ readData) LF of
                     Some newLineIndex \<Rightarrow>
                       headLoop w' fh numLines
                         (pushLines (split_lines (take newLineIndex (buffer @ readData))) lines numLines)
                         (drop (newLineIndex + 1) (buffer @ readData))
                         (bytesRead + length readData)
                   | None \<Rightarrow>
                       headLoop w' fh numLines lines (buffer @ readData) (bytesRead + length readData)))
      else (Inr (lines, buffer), w))"
  by pat_completeness auto
termination
  by (relation "measure (\<lambda>(w, fh, numLines, lines, buffer, bytesRead). fileLength w fh - bytesRead)")
     (auto simp: fs_read_def fileLength_def logged_def split: option.splits node.splits)

definition headFile :: "world \<Rightarrow> path \<Rightarrow> int \<Rightarrow> (error + string) \<times> world" where
  "headFile w filePath numLines =
     (case fs_open w filePath of
        (Inl e, w1) \<Rightarrow> (Inl (SysError e), w1)
      | (Inr fileHandle, w1) \<Rightarrow>
          (let (r, w2) = headLoop w1 fileHandle numLines [] [] 0;
               joined = map_sum (\<lambda>e. e)
                          (\<lambda>(lines, buffer).
                              join_lines (if length buffer > 0 \<and> int (length lines) < numLines
                                          then lines @ [buffer] else lines)) r
           in finally_close (joined, w2) fileHandle))"

section \<open>Directory walks\<close>

text \<open>
  \<open>minimatch(path, pattern, {dot})\<close> and the \<open>RegExp\<close> constructor are parameters.
  \<open>regexp pattern ignoreCase\<close> is \<open>None\<close> when the constructor throws, and otherwise
  the \<open>test\<close> of the expression (with \<open>lastIndex\<close> reset, as the library does).
\<close>

record libs =
  minimatch :: "string \<Rightarrow> string \<Rightarrow> bool \<Rightarrow> bool"
  regexp :: "string \<Rightarrow> bool \<Rightarrow> (string \<Rightarrow> bool) option"

text \<open>
  What \<open>fs.readdir(dir, {withFileTypes: true})\<close> reports for a directory and,
  entry by entry, for what is below it. An entry has a name and a kind
  (\<open>isFile()\<close>, \<open>isDirectory()\<close>, or neither: a link, a socket, ...). The walks
  descend only into entries that are directories themselves, so what they see is a
  finite tree.
\<close>

datatype kind = KFile | KDir | KOther

datatype dtree = Unreadable errno | Entries dlist
  and dlist = DNil | DCons string kind dtree dlist

subsection \<open>searchFilesWithValidation\<close>

text \<open>
  \<open>results\<close> is shared by all the calls of \<open>search\<close>: what a call has pushed stays
  when it throws. An error of \<open>readdir\<close> leaves \<open>search\<close>; inside the loop every
  error, also that of the nested \<open>search\<close>, is caught and the loop continues. The
  parameter \<open>allowedDirectories\<close> of the function is not used by its body:
  \<open>validatePath\<close> tests against the module's list, here \<open>dirs\<close>.
\<close>

fun search ::
  "penv \<Rightarrow> libs \<Rightarrow> string list \<Rightarrow> string \<Rightarrow> string \<Rightarrow> string list \<Rightarrow> string \<Rightarrow> dtree
     \<Rightarrow> string list \<times> world \<Rightarrow> errno option \<times> string list \<times> world"
and searchEntries ::
  "penv \<Rightarrow> libs \<Rightarrow> string list \<Rightarrow> string \<Rightarrow> string \<Rightarrow> string list \<Rightarrow> string \<Rightarrow> dlist
     \<Rightarrow> string list \<times> world \<Rightarrow> string list \<times> world"
where
  "search E L dirs rootPath pattern excludePatterns currentPath (Unreadable e) rw =
     (Some e, fst rw, logged (Readdir currentPath) (snd rw))"
| "search E L dirs rootPath pattern excludePatterns currentPath (Entries entries) rw =
     (None, searchEntries E L dirs rootPath pattern excludePatterns currentPath entries
              (fst rw, logged (Readdir currentPath) (snd rw)))"
| "searchEntries E L dirs rootPath pattern excludePatterns currentPath DNil rw = rw"
| "searchEntries E L dirs rootPath pattern excludePatterns currentPath (DCons name k sub rest) rw =
     (let fullPath = join E currentPath name;
          (v, w1) = validatePath E dirs (snd rw) fullPath
      in case v of
           Inl err \<Rightarrow>
             searchEntries E L dirs rootPath pattern excludePatterns currentPath rest (fst rw, w1)
         | Inr validPath \<Rightarrow>
             (let relativePath = relative E rootPath fullPath;
                  shouldExclude = list_ex (\<lambda>excludePattern. minimatch L relativePath excludePattern True)
                                    excludePatterns
              in if shouldExclude
                 then searchEntries E L dirs rootPath pattern excludePatterns currentPath rest (fst rw, w1)
                 else
                   (let results1 = (if minimatch L relativePath pattern True
                                    then fst rw @ [fullPath] else fst rw)
                    in if k = KDir
                       then searchEntries E L dirs rootPath pattern excludePatterns currentPath rest
                              (snd (search E L dirs rootPath pattern excludePatterns fullPath sub
                                      (results1, w1)))
                       else searchEntries E L dirs rootPath pattern excludePatterns currentPath rest
                              (results1, w1))))"

text \<open>
  The tests of the repository import a second copy of the library, kept in the same
  source file as the tests. Its \<open>searchFilesWithValidation\<close> asks an index first
  (\<open>plocate\<close>) and ends with the same walk; the copy in \<open>lib.ts\<close> is the walk alone.
  The function below is the one with the index. (Its \<open>search\<close> also returns at
  once when \<open>readdir\<close> yields something that is not an array, which
  \<open>fs.readdir\<close> never does.)

  The process environment is a parameter: the variable \<open>PLOCATE_DB\<close>, and what
  running a command with given arguments comes to (\<open>execFile\<close>, promisified). A run
  that exits with status 0 resolves with its decoded standard output; any other run
  rejects with an error that has a \<open>code\<close> (the exit status, or a name such as
  \<open>ENOENT\<close> when the command cannot be started, or none when the run was killed at the
  timeout) and a message.
\<close>

datatype exec_code = ExitStatus int | CodeName string | NoCode

datatype exec_result = Stdout jsstring | Failed exec_code string

record proc =
  PLOCATE_DB :: "string option"
  execFile :: "string \<Rightarrow> string list \<Rightarrow> exec_result"

text \<open>\<open>fs.access(p)\<close>: succeeds when something is at \<open>p\<close>, links followed.\<close>

definition fs_access :: "world \<Rightarrow> path \<Rightarrow> (errno + unit) \<times> world" where
  "fs_access w p =
     (case lookup w (Access p) p of
        Inl e \<Rightarrow> (Inl e, logged (Access p) w)
      | Inr n \<Rightarrow> (Inr (), logged (Access p) w))"

text \<open>\<open>process.env.PLOCATE_DB || '/var/lib/plocate/plocate.db'\<close>\<close>

definition plocateDb :: "proc \<Rightarrow> string" where
  "plocateDb P =
     (case PLOCATE_DB P of
        None \<Rightarrow> ''/var/lib/plocate/plocate.db''
      | Some db \<Rightarrow> if db = [] then ''/var/lib/plocate/plocate.db'' else db)"

definition isPlocateAvailable :: "proc \<Rightarrow> world \<Rightarrow> bool \<times> world" where
  "isPlocateAvailable P w =
     (case fs_access w (plocateDb P) of
        (Inl e, w1) \<Rightarrow> (False, w1)
      | (Inr u, w1) \<Rightarrow>
          (case execFile P ''plocate'' [''--version''] of
             Stdout out \<Rightarrow> (True, w1)
           | Failed c m \<Rightarrow> (False, w1)))"

text \<open>
  The four replacements of \<open>preparePatternForPlocate\<close>, in its order:
  \<open>/^\*\*\/+/\<close> (a leading \<open>**\<close> with the slashes after it),
  \<open>/\/+\*\*$/\<close> (a final \<open>**\<close> with the slashes before it),
  \<open>/\*\*\/+/g\<close> and \<open>/\/+\*\*/g\<close> (every such group, from left to right).
\<close>

definition isSlash :: "char \<Rightarrow> bool" where
  "isSlash c = (c = CHR ''/'')"

definition removeLeadingStars :: "string \<Rightarrow> string" where
  "removeLeadingStars s = (if prefix ''**/'' s then dropWhile isSlash (drop 2 s) else s)"

definition removeTrailingStars :: "string \<Rightarrow> string" where
  "removeTrailingStars s =
     (if suffix ''/**'' s then rev (dropWhile isSlash (rev (take (length s - 2) s))) else s)"

function removeStarsSlashes :: "string \<Rightarrow> string" where
  "removeStarsSlashes [] = []"
| "removeStarsSlashes (c # cs) =
     (if prefix ''**/'' (c # cs) then removeStarsSlashes (dropWhile isSlash (drop 2 (c # cs)))
      else c # removeStarsSlashes cs)"
  by pat_completeness auto
termination
proof (relation "measure length")
  show "wf (measure length)" by simp
next
  fix c :: char and cs :: string
  assume "prefix ''**/'' (c # cs)"
  have "length (dropWhile isSlash (drop 2 (c # cs))) \<le> length (drop 2 (c # cs))"
    by (rule length_dropWhile_le)
  then show "(dropWhile isSlash (drop 2 (c # cs)), c # cs) \<in> measure length"
    by simp
next
  fix c :: char and cs :: string
  show "(cs, c # cs) \<in> measure length" by simp
qed

function removeSlashesStars :: "string \<Rightarrow> string" where
  "removeSlashesStars [] = []"
| "removeSlashesStars (c # cs) =
     (if isSlash c \<and> prefix ''**'' (dropWhile isSlash cs)
      then removeSlashesStars (drop 2 (dropWhile isSlash cs))
      else c # removeSlashesStars cs)"
  by pat_completeness auto
termination
proof (relation "measure length")
  show "wf (measure length)" by simp
next
  fix c :: char and cs :: string
  have "length (dropWhile isSlash cs) \<le> length cs"
    by (rule length_dropWhile_le)
  then show "(drop 2 (dropWhile isSlash cs), c # cs) \<in> measure length"
    by simp
next
  fix c :: char and cs :: string
  show "(cs, c # cs) \<in> measure length" by simp
qed

definition preparePatternForPlocate :: "string \<Rightarrow> string option" where
  "preparePatternForPlocate globPattern =
     (let converted = removeSlashesStars (removeStarsSlashes
                        (removeTrailingStars (removeLeadingStars globPattern)))
      in if includes_str converted ''**'' \<or> includes_str converted ''{''
            \<or> includes_str converted ''!('' \<or> includes_str converted ''?(''
            \<or> includes_str converted ''*('' \<or> includes_str converted ''+(''
            \<or> includes_str converted ''@('' \<or> converted = [] \<or> converted = ''/''
            \<or> prefix ''!'' converted \<or> includes_str converted [CHR 0x5C]
         then None
         else Some converted)"

text \<open>
  The loop over the paths the index printed. A path outside \<open>rootPath\<close>, one that
  fails \<open>validatePath\<close> and one that an exclude pattern matches are skipped; the rest
  is pushed without matching it against the pattern again.
\<close>

fun filterPaths ::
  "penv \<Rightarrow> libs \<Rightarrow> string list \<Rightarrow> string \<Rightarrow> string list \<Rightarrow> string list
     \<Rightarrow> string list \<times> world \<Rightarrow> string list \<times> world" where
  "filterPaths E L dirs rootPath excludePatterns [] rw = rw"
| "filterPaths E L dirs rootPath excludePatterns (filePath # rest) rw =
     (let normalizedRoot = normalizePath E rootPath;
          rootPathWithSlash = (if suffix ''/'' normalizedRoot then normalizedRoot
                               else normalizedRoot @ ''/'');
          normalizedPath = normalizePath E filePath
      in if normalizedPath \<noteq> normalizedRoot \<and> \<not> prefix rootPathWithSlash normalizedPath
         then filterPaths E L dirs rootPath excludePatterns rest rw
         else
           (let (v, w1) = validatePath E dirs (snd rw) filePath
            in case v of
                 Inl validationError \<Rightarrow>
                   filterPaths E L dirs rootPath excludePatterns rest (fst rw, w1)
               | Inr validPath \<Rightarrow>
                   (let relativePath = relative E rootPath filePath;
                        shouldExclude =
                          list_ex (\<lambda>excludePattern. minimatch L relativePath excludePattern True)
                            excludePatterns
                    in if shouldExclude
                       then filterPaths E L dirs rootPath excludePatterns rest (fst rw, w1)
                       else filterPaths E L dirs rootPath excludePatterns rest
                              (fst rw @ [filePath], w1))))"

text \<open>
  \<open>stdout.split('\n').map(line => line.trim()).filter(line => line.length > 0)\<close>;
  a line is a path, held as its bytes like every path of the model.
\<close>

definition allPathsOf :: "codec \<Rightarrow> jsstring \<Rightarrow> string list" where
  "allPathsOf C out =
     map (encode C) (filter (\<lambda>line. length line > 0) (map trim (js_split_lines out)))"

text \<open>
  The index tier: \<open>Some\<close> of what the function returns from inside it, or \<open>None\<close>
  when control reaches the walk. Inside the \<open>try\<close> only the run of the command can
  throw (the loop catches what its body throws), so \<open>results\<close> is still empty when the
  \<open>catch\<close> is entered. What the \<open>catch\<close> writes to the console is not modelled.
\<close>

definition plocateTier ::
  "codec \<Rightarrow> penv \<Rightarrow> libs \<Rightarrow> proc \<Rightarrow> string list \<Rightarrow> world \<Rightarrow> string \<Rightarrow> string \<Rightarrow> string list
     \<Rightarrow> (string list \<times> world) option" where
  "plocateTier C E L P dirs w rootPath pattern excludePatterns =
     (case preparePatternForPlocate pattern of
        None \<Rightarrow> None
      | Some plocatePattern \<Rightarrow>
          (case execFile P ''plocate''
                  [''--database'', plocateDb P, ''--limit'', ''10000'', plocatePattern] of
             Stdout out \<Rightarrow>
               Some (filterPaths E L dirs rootPath excludePatterns (allPathsOf C out) ([], w))
           | Failed c m \<Rightarrow> if c = ExitStatus 1 then Some ([], w) else None))"

definition searchFilesWithValidation ::
  "codec \<Rightarrow> penv \<Rightarrow> libs \<Rightarrow> proc \<Rightarrow> string list \<Rightarrow> world \<Rightarrow> dtree \<Rightarrow> string \<Rightarrow> string
     \<Rightarrow> string list \<Rightarrow> (error + string list) \<times> world" where
  "searchFilesWithValidation C E L P dirs w tree rootPath pattern excludePatterns =
     (let (usePlocate, w1) = isPlocateAvailable P w
      in case (if usePlocate then plocateTier C E L P dirs w1 rootPath pattern excludePatterns
               else None) of
           Some (results, w2) \<Rightarrow> (Inr results, w2)
         | None \<Rightarrow>
             (case search E L dirs rootPath pattern excludePatterns rootPath tree ([], w1) of
                (Some e, results, w') \<Rightarrow> (Inl (SysError e), w')
              | (None, results, w') \<Rightarrow> (Inr results, w')))"

subsection \<open>searchFileContents\<close>

text \<open>
  The options after destructuring, every default filled in (\<open>contextN\<close> is the
  option \<open>context\<close>).
\<close>

record GrepOptions =
  searchPath :: string
  pattern :: string
  ignoreCase :: bool
  recursive :: bool
  maxResults :: int
  contextN :: int
  beforeContext :: "int option"
  afterContext :: "int option"
  filePattern :: string
  includeLineNumbers :: bool
  excludePatterns :: "string list"
  invertMatch :: bool
  fixedStrings :: bool

record GrepMatch =
  fileN :: string
  lineNumber :: int
  content :: string
  contextBefore :: "string list option"
  contextAfter :: "string list option"



text \<open>\<open>pattern.replace(/[.*+?^${}()|[\]\\]/g, '\\$&')\<close>\<close>

definition isRegExpSpecial :: "char \<Rightarrow> bool" where
  "isRegExpSpecial c = (c = CHR ''.'' \<or> c = CHR ''*'' \<or> c = CHR ''+'' \<or> c = CHR ''?''
       \<or> c = CHR ''^'' \<or> c = CHR ''$'' \<or> c = CHR ''{'' \<or> c = CHR ''}'' \<or> c = CHR ''(''
       \<or> c = CHR '')'' \<or> c = CHR ''|'' \<or> c = CHR ''['' \<or> c = CHR '']'' \<or> c = CHR 0x5C)"

definition escapeRegExp :: "string \<Rightarrow> string" where
  "escapeRegExp s = concat (map (\<lambda>c. if isRegExpSpecial c then [CHR 0x5C, c] else [c]) s)"

definition effectivePattern :: "GrepOptions \<Rightarrow> string" where
  "effectivePattern opts = (if fixedStrings opts then escapeRegExp (pattern opts) else pattern opts)"

text \<open>\<open>matchesPattern\<close>: \<open>matches !== invertMatch\<close>.\<close>

definition matchesPattern :: "(string \<Rightarrow> bool) \<Rightarrow> GrepOptions \<Rightarrow> string \<Rightarrow> bool" where
  "matchesPattern test opts line = (test line \<noteq> invertMatch opts)"




text \<open>
  The state of a search: the variable \<open>totalMatches\<close>, and \<open>results\<close>. The library
  pushes the formatted text of a file's matches; the text is a function of the file and
  its matches, and the model keeps the pair, from which the counts can be read.
\<close>

record grep_state =
  results :: "(string \<times> GrepMatch list) list"
  totalMatches :: int




text \<open>The per-file match counts of a result, summed.\<close>

definition matchCount :: "(string \<times> GrepMatch list) list \<Rightarrow> int" where
  "matchCount rs = int (sum_list (map (\<lambda>r. length (snd r)) rs))"

subsection \<open>What a search can find\<close>

text \<open>
  For the proofs about the cap: the number of matching lines a file offers when it
  passes validation, is not excluded and can be read, and their sum over the entries a
  walk visits. None of this depends on \<open>maxResults\<close>, nor on the log.
\<close>

definition matchingLines :: "(string \<Rightarrow> bool) \<Rightarrow> GrepOptions \<Rightarrow> string list \<Rightarrow> nat" where
  "matchingLines test opts lines = length (filter (matchesPattern test opts) lines)"

definition same_fs :: "world \<Rightarrow> world \<Rightarrow> bool" where
  "same_fs w w0 = (realpath_of w = realpath_of w0 \<and> nodes w = nodes w0 \<and> faults w = faults w0)"

definition availInFile ::
  "penv \<Rightarrow> libs \<Rightarrow> string list \<Rightarrow> GrepOptions \<Rightarrow> string \<Rightarrow> (string \<Rightarrow> bool) \<Rightarrow> world \<Rightarrow> string \<Rightarrow> nat" where
  "availInFile E L dirs opts validatedSearchPath test w0 filePath =
     (case fst (validatePath E dirs w0 filePath) of
        Inl err \<Rightarrow> 0
      | Inr validPath \<Rightarrow>
          if list_ex (\<lambda>excludePattern. minimatch L (relative E validatedSearchPath filePath) excludePattern True)
               (excludePatterns opts)
          then 0
          else (case fst (fs_readFile w0 filePath) of
                  Inl e \<Rightarrow> 0
                | Inr body \<Rightarrow> matchingLines test opts (split_lines (normalizeLineEndings body))))"


text \<open>
  The invariant of a search with cap \<open>c\<close> started on the file system \<open>w0\<close>, and the
  effect of a step that had \<open>m\<close> matching lines before it.
\<close>

definition search_inv :: "int \<Rightarrow> world \<Rightarrow> grep_state \<times> world \<Rightarrow> bool" where
  "search_inv c w0 sw =
     (same_fs (snd sw) w0 \<and> 0 \<le> totalMatches (fst sw) \<and> totalMatches (fst sw) \<le> c
      \<and> matchCount (results (fst sw)) = totalMatches (fst sw))"

definition advanced ::
  "int \<Rightarrow> world \<Rightarrow> grep_state \<times> world \<Rightarrow> grep_state \<times> world \<Rightarrow> nat \<Rightarrow> bool" where
  "advanced c w0 sw sw' m =
     (search_inv c w0 sw' \<and> totalMatches (fst sw') = min c (totalMatches (fst sw) + int m))"

section \<open>A concrete environment\<close>

text \<open>
  A POSIX instance of the path parameters for paths that are already absolute and
  canonical, and a file system, used to run the definitions on concrete inputs.
\<close>

definition posix_dirname :: "string \<Rightarrow> string" where
  "posix_dirname p =
     (let d = rev (drop 1 (dropWhile (\<lambda>c. c \<noteq> CHR ''/'') (rev p)))
      in if d = [] then ''/'' else d)"

definition posix_basename :: "string \<Rightarrow> string" where
  "posix_basename p = rev (takeWhile (\<lambda>c. c \<noteq> CHR ''/'') (rev p))"

text \<open>\<open>path.relative\<close>, for a path below the directory it is taken from.\<close>

definition posix_relative :: "string \<Rightarrow> string \<Rightarrow> string" where
  "posix_relative from to = (if prefix (from @ ''/'') to then drop (length from + 1) to else to)"

definition posix :: penv where
  "posix = \<lparr> expandHome = (\<lambda>p. p), normalizePath = (\<lambda>p. p),
             isAbsolute = (\<lambda>p. take 1 p = ''/''), resolve1 = (\<lambda>p. p),
             resolve2 = (\<lambda>d p. d @ ''/'' @ p), cwd = ''/srv'',
             dirname = posix_dirname, basename = posix_basename,
             join = (\<lambda>d n. d @ ''/'' @ n), relative = posix_relative, sep = ''/'' \<rparr>"

definition empty_world :: world where
  "empty_world = \<lparr> realpath_of = (\<lambda>p. Inl ENOENT), nodes = Map.empty,
                   faults = (\<lambda>c. None), log = [] \<rparr>"

text \<open>
  A file system with a symbolic link \<open>/allowed/link\<close> to \<open>/etc/passwd\<close>, a linked
  directory \<open>/allowed/linkdir\<close> to \<open>/etc\<close>, a regular file \<open>/allowed/a.txt\<close> of
  five lines, a file \<open>/allowed/b.txt\<close> of three, a file \<open>/allowed/app.js\<close> and an
  empty file \<open>/allowed/empty.txt\<close>.
\<close>

definition demo_realpath :: "path \<Rightarrow> errno + path" where
  "demo_realpath p =
     (if p = ''/allowed'' then Inr ''/allowed''
      else if p = ''/allowed/a.txt'' then Inr ''/allowed/a.txt''
      else if p = ''/allowed/b.txt'' then Inr ''/allowed/b.txt''
      else if p = ''/allowed/app.js'' then Inr ''/allowed/app.js''
      else if p = ''/allowed/link'' then Inr ''/etc/passwd''
      else if p = ''/allowed/linkdir'' then Inr ''/etc''
      else Inl ENOENT)"

definition demo_world :: world where
  "demo_world = \<lparr> realpath_of = demo_realpath,
                  nodes = [''/allowed'' \<mapsto> Dir, ''/allowed/a.txt'' \<mapsto> File ''a\<newline>b\<newline>c\<newline>d\<newline>e'',
                           ''/allowed/b.txt'' \<mapsto> File ''a\<newline>b\<newline>a'',
                           ''/allowed/app.js'' \<mapsto> File ''x'',
                           ''/allowed/empty.txt'' \<mapsto> File [],
                           ''/allowed/link'' \<mapsto> Link ''/etc/passwd'',
                           ''/allowed/linkdir'' \<mapsto> Link ''/etc''],
                  faults = (\<lambda>c. None), log = [] \<rparr>"

text \<open>The same file system, where every rename fails with an I/O error.\<close>

definition rename_fails :: world where
  "rename_fails = demo_world\<lparr>faults := (\<lambda>c. case c of Rename a b \<Rightarrow> Some (Clean EIO) | _ \<Rightarrow> None)\<rparr>"

text \<open>
  Stand-ins for the two packages, right on the inputs used below: the glob
  \<open>**/*.js\<close> matches the paths that end in \<open>.js\<close>, and an expression without
  special characters matches the lines that contain it.
\<close>

definition demo_libs :: libs where
  "demo_libs = \<lparr> minimatch = (\<lambda>p pat dot. pat = ''**/*.js'' \<and> suffix ''.js'' p),
                 regexp = (\<lambda>pat ic. Some (\<lambda>line. includes_str line pat)) \<rparr>"


definition js_tree :: dtree where
  "js_tree = Entries (DCons ''app.js'' KFile (Unreadable ENOTDIR) DNil)"


text \<open>
  Stand-ins for the codec, right on ASCII, and for the patch function: the two texts,
  separated by a bar.
\<close>

definition ascii :: codec where
  "ascii = \<lparr> decode = map of_char, encode = map char_of \<rparr>"

definition demo_patch :: twoFilesPatch where
  "demo_patch oldFileName newFileName oldStr newStr oldHeader newHeader = oldStr @ lit ''|'' @ newStr"

text \<open>
  The same file system with an index database, and a process environment where
  \<open>plocate --version\<close> succeeds and the query exits with the given status.
\<close>

definition indexed_world :: world where
  "indexed_world = demo_world\<lparr>nodes := (nodes demo_world)(''/var/lib/plocate/plocate.db'' \<mapsto> File [])\<rparr>"

definition plocate_exits :: "int \<Rightarrow> proc" where
  "plocate_exits status =
     \<lparr> PLOCATE_DB = None,
       execFile = (\<lambda>cmd args. if args = [''--version''] then Stdout (lit ''plocate 1.1.18'')
                                else Failed (ExitStatus status) ''Command failed'') \<rparr>"

section \<open>Theorems\<close>

lemma validatePath_denied:
  assumes "\<not> isPathWithinAllowedDirectories E (normalizePath E (absolute_of E p)) dirs"
  shows "validatePath E dirs w p = (Inl (AccessDenied (absolute_of E p) dirs), w)"
  using assms by (simp add: validatePath_def Let_def)

text \<open>
  C1. A requested path that, after home expansion, absolutisation and normalisation, is
  neither equal to an allowed directory nor below one at a path-segment boundary is
  rejected with the access-denied error, and the file system is returned as it was: its
  log has not grown, so no realpath, stat, read or write was performed.
\<close>

theorem C1_access_denied_before_fs:
  assumes "\<forall>d \<in> set dirs. normalizePath E (absolute_of E p) \<noteq> d
             \<and> \<not> prefix (d @ sep E) (normalizePath E (absolute_of E p))"
  shows "validatePath E dirs w p = (Inl (AccessDenied (absolute_of E p) dirs), w)
         \<and> log (snd (validatePath E dirs w p)) = log w"
proof -
  from assms have "\<not> isPathWithinAllowedDirectories E (normalizePath E (absolute_of E p)) dirs"
    by (auto simp: isPathWithinAllowedDirectories_def list_ex_iff)
  then have "validatePath E dirs w p = (Inl (AccessDenied (absolute_of E p) dirs), w)"
    by (rule validatePath_denied)
  then show ?thesis by simp
qed

theorem C1_witness:
  "validatePath posix [''/allowed''] empty_world ''/allowed2/x''
     = (Inl (AccessDenied ''/allowed2/x'' [''/allowed'']), empty_world)
   \<and> log (snd (validatePath posix [''/allowed''] empty_world ''/allowed2/x'')) = []"
  using C1_access_denied_before_fs [of "[''/allowed'']" posix "''/allowed2/x''" empty_world]
  by (simp add: posix_def absolute_of_def empty_world_def)

lemma validatePath_resolved:
  assumes "isPathWithinAllowedDirectories E (normalizePath E (absolute_of E p)) dirs"
      and "realpath_of w (absolute_of E p) = Inr rp"
  shows "validatePath E dirs w p =
           (if isPathWithinAllowedDirectories E (normalizePath E rp) dirs
            then Inr rp else Inl (SymlinkEscape rp dirs),
            logged (Realpath (absolute_of E p)) w)"
  using assms by (simp add: validatePath_def fs_realpath_def Let_def)

lemma validatePath_not_found:
  assumes "isPathWithinAllowedDirectories E (normalizePath E (absolute_of E p)) dirs"
      and "realpath_of w (absolute_of E p) = Inl ENOENT"
  shows "validatePath E dirs w p =
           validateParent E dirs (logged (Realpath (absolute_of E p)) w) (absolute_of E p)"
  using assms by (simp add: validatePath_def fs_realpath_def Let_def)

lemma realpath_of_logged [simp]: "realpath_of (logged c w) = realpath_of w"
  by (simp add: logged_def)

lemma log_logged [simp]: "log (logged c w) = log w @ [c]"
  by (simp add: logged_def)

text \<open>
  C2. When the requested form passes the containment test and \<open>fs.realpath\<close> succeeds,
  a resolved path outside every allowed directory is rejected with the symlink-escape
  error, and a contained one is returned as the validated path.
\<close>

theorem C2_symlink_escape:
  assumes "isPathWithinAllowedDirectories E (normalizePath E (absolute_of E p)) dirs"
      and "realpath_of w (absolute_of E p) = Inr rp"
  shows "(\<not> isPathWithinAllowedDirectories E (normalizePath E rp) dirs \<longrightarrow>
            fst (validatePath E dirs w p) = Inl (SymlinkEscape rp dirs))
       \<and> (isPathWithinAllowedDirectories E (normalizePath E rp) dirs \<longrightarrow>
            fst (validatePath E dirs w p) = Inr rp)"
  using validatePath_resolved [OF assms] by simp

theorem C2_witness:
  "fst (validatePath posix [''/allowed''] demo_world ''/allowed/link'')
     = Inl (SymlinkEscape ''/etc/passwd'' [''/allowed''])
   \<and> fst (validatePath posix [''/allowed''] demo_world ''/allowed/a.txt'') = Inr ''/allowed/a.txt''"
  using C2_symlink_escape [of posix "''/allowed/link''" "[''/allowed'']" demo_world "''/etc/passwd''"]
        C2_symlink_escape [of posix "''/allowed/a.txt''" "[''/allowed'']" demo_world "''/allowed/a.txt''"]
  by (simp add: posix_def absolute_of_def demo_world_def demo_realpath_def
        isPathWithinAllowedDirectories_def)

text \<open>
  C3 (what the code does). The requested path \<open>/allowed/linkdir/new.txt\<close> does not
  exist and its parent resolves to \<open>/etc\<close>, outside the allowed directory. The
  "parent directory outside allowed directories" error is thrown inside the inner
  \<open>try\<close> and replaced by its \<open>catch\<close>: the caller sees the parent-missing error.
\<close>

theorem C3_parent_outside_reported_missing:
  "fst (validatePath posix [''/allowed''] demo_world ''/allowed/linkdir/new.txt'')
     = Inl (ParentMissing ''/allowed/linkdir'')"
  by (simp add: validatePath_def validateParent_def fs_realpath_def Let_def posix_def
        absolute_of_def demo_world_def demo_realpath_def isPathWithinAllowedDirectories_def
        posix_dirname_def logged_def)

text \<open>
  C4. When the requested form passes the containment test and \<open>fs.realpath\<close> reports
  not-found, a parent directory that resolves inside an allowed directory makes
  \<open>validatePath\<close> return the absolute, unresolved form of the request; a parent that
  does not resolve makes it fail with the parent-missing error.
\<close>

theorem C4_new_file_in_allowed_parent:
  assumes "isPathWithinAllowedDirectories E (normalizePath E (absolute_of E p)) dirs"
      and "realpath_of w (absolute_of E p) = Inl ENOENT"
  shows "(\<forall>rp. realpath_of w (dirname E (absolute_of E p)) = Inr rp
              \<and> isPathWithinAllowedDirectories E (normalizePath E rp) dirs \<longrightarrow>
            fst (validatePath E dirs w p) = Inr (absolute_of E p))
       \<and> (\<forall>e. realpath_of w (dirname E (absolute_of E p)) = Inl e \<longrightarrow>
            fst (validatePath E dirs w p) = Inl (ParentMissing (dirname E (absolute_of E p))))"
  unfolding validatePath_not_found [OF assms]
  by (simp add: validateParent_def fs_realpath_def Let_def)

theorem C4_witness:
  "fst (validatePath posix [''/allowed''] demo_world ''/allowed/newfile.txt'')
     = Inr ''/allowed/newfile.txt''
   \<and> fst (validatePath posix [''/allowed''] demo_world ''/allowed/nodir/newfile.txt'')
     = Inl (ParentMissing ''/allowed/nodir'')"
  using C4_new_file_in_allowed_parent
          [of posix "''/allowed/newfile.txt''" "[''/allowed'']" demo_world]
        C4_new_file_in_allowed_parent
          [of posix "''/allowed/nodir/newfile.txt''" "[''/allowed'']" demo_world]
  by (simp add: posix_def absolute_of_def demo_world_def demo_realpath_def
        isPathWithinAllowedDirectories_def posix_dirname_def)

lemma spread_fresh: "spread h a = (length h, h @ [h ! a])"
  by (simp add: spread_def)

text \<open>
  C10. \<open>setAllowedDirectories\<close> stores a copy: after it, overwriting the array the
  caller passed leaves \<open>validatePath\<close> testing against the elements that array had
  at the call. \<open>getAllowedDirectories\<close> returns a copy: the returned address is not
  the module's, it holds the same elements, and overwriting it leaves
  \<open>validatePath\<close> as it was.
\<close>

theorem C10_allow_list_copied:
  assumes "a < length (heap m)" and "allowedDirectories m < length (heap m)"
  shows "validatePath_in E (mutate a xs (setAllowedDirectories m a)) w p
           = validatePath E (heap m ! a) w p
       \<and> (let (r, m') = getAllowedDirectories m
          in r \<noteq> allowedDirectories m'
             \<and> heap m' ! r = heap m ! allowedDirectories m
             \<and> validatePath_in E (mutate r xs m') w p = validatePath_in E m w p)"
  using assms
  by (simp add: validatePath_in_def mutate_def setAllowedDirectories_def
        getAllowedDirectories_def spread_def nth_append)

theorem C10_witness:
  "validatePath_in posix
      (mutate 1 [''/etc''] (setAllowedDirectories \<lparr>heap = [[], [''/allowed'']], allowedDirectories = 0\<rparr> 1))
      demo_world ''/etc/passwd''
     = validatePath posix [''/allowed''] demo_world ''/etc/passwd''
   \<and> fst (validatePath posix [''/allowed''] demo_world ''/etc/passwd'')
     = Inl (AccessDenied ''/etc/passwd'' [''/allowed''])"
  using C10_allow_list_copied
          [of 1 "\<lparr>heap = [[], [''/allowed'']], allowedDirectories = 0\<rparr>" posix "[''/etc'']"
              demo_world "''/etc/passwd''"]
  by (simp add: validatePath_def posix_def absolute_of_def isPathWithinAllowedDirectories_def
        Let_def)

lemma log_fs_writeFile_wx: "log (snd (fs_writeFile_wx w p c)) = log w @ [WriteFileWx p c]"
  by (simp add: fs_writeFile_wx_def Let_def split: option.splits fault.splits)

lemma log_fs_writeFile: "log (snd (fs_writeFile w p c)) = log w @ [WriteFile p c]"
  by (simp add: fs_writeFile_def Let_def split: option.splits fault.splits sum.splits)

lemma log_fs_rename: "log (snd (fs_rename w a b)) = log w @ [Rename a b]"
  by (simp add: fs_rename_def Let_def split: option.splits)

lemma log_fs_unlink: "log (snd (fs_unlink w p)) = log w @ [Unlink p]"
  by (simp add: fs_unlink_def Let_def split: option.splits node.splits)

lemma fs_unlink_removes: "fst (fs_unlink w p) = Inr () \<Longrightarrow> nodes (snd (fs_unlink w p)) p = None"
  by (simp add: fs_unlink_def Let_def logged_def split: option.splits node.splits)

lemma fs_writeFile_wx_exists: "nodes w p \<noteq> None \<Longrightarrow> fst (fs_writeFile_wx w p c) = Inl EEXIST"
  by (auto simp: fs_writeFile_wx_def Let_def)

lemma fs_writeFile_wx_other:
  "q \<noteq> p \<Longrightarrow> nodes (snd (fs_writeFile_wx w p c)) q = nodes w q"
  by (simp add: fs_writeFile_wx_def Let_def logged_def split: option.splits fault.splits)

lemma tempPathOf_neq: "tempPathOf p rnd \<noteq> p"
  by (simp add: tempPathOf_def)

lemma replaceViaTemp_write_failed:
  "fs_writeFile w t c = (Inl e, w2) \<Longrightarrow>
     replaceViaTemp w t p c = (Inl (SysError e), snd (fs_unlink w2 t))"
  by (simp add: replaceViaTemp_def)

lemma replaceViaTemp_renamed:
  "fs_writeFile w t c = (Inr u, w2) \<Longrightarrow> fs_rename w2 t p = (Inr u', w3) \<Longrightarrow>
     replaceViaTemp w t p c = (Inr (), w3)"
  by (simp add: replaceViaTemp_def)

lemma replaceViaTemp_rename_failed:
  "fs_writeFile w t c = (Inr u, w2) \<Longrightarrow> fs_rename w2 t p = (Inl e, w3) \<Longrightarrow>
     replaceViaTemp w t p c = (Inl (SysError e), snd (fs_unlink w3 t))"
  by (simp add: replaceViaTemp_def)

text \<open>
  C5. \<open>writeFileContent\<close> starts with the exclusive create, which reports \<open>EEXIST\<close>
  whenever anything (a file, a directory or a symbolic link) is at the target. Any other
  error of it is returned as it is, after that one call and with the temp path
  untouched. Only after \<open>EEXIST\<close> is the content written to the temp path
  \<open>target.rnd.tmp\<close> and the temp file renamed onto the target. When the temp write
  or the rename fails, the temp file is unlinked and the error of the failed call (not
  the unlink's) is returned; if that unlink succeeded, nothing is at the temp path.
\<close>

theorem C5_write_protocol:
  "let t = tempPathOf p rnd;
       (r1, w1) = fs_writeFile_wx w p c;
       (res, w') = writeFileContent w rnd p c
   in (\<exists>rest. log w' = log w @ WriteFileWx p c # rest)
    \<and> (nodes w p \<noteq> None \<longrightarrow> r1 = Inl EEXIST)
    \<and> (r1 = Inr () \<longrightarrow> res = Inr () \<and> w' = w1)
    \<and> (\<forall>e. r1 = Inl e \<and> e \<noteq> EEXIST \<longrightarrow>
          res = Inl (SysError e) \<and> w' = w1 \<and> log w' = log w @ [WriteFileWx p c]
          \<and> nodes w' t = nodes w t)
    \<and> (r1 = Inl EEXIST \<longrightarrow>
         (let (r2, w2) = fs_writeFile w1 t c
          in (\<exists>rest. log w' = log w @ WriteFileWx p c # WriteFile t c # rest)
           \<and> (\<forall>e. r2 = Inl e \<longrightarrow>
                 res = Inl (SysError e) \<and> w' = snd (fs_unlink w2 t)
                 \<and> log w' = log w @ [WriteFileWx p c, WriteFile t c, Unlink t]
                 \<and> (fst (fs_unlink w2 t) = Inr () \<longrightarrow> nodes w' t = None))
           \<and> (r2 = Inr () \<longrightarrow>
                (let (r3, w3) = fs_rename w2 t p
                 in (r3 = Inr () \<longrightarrow> res = Inr () \<and> w' = w3
                       \<and> log w' = log w @ [WriteFileWx p c, WriteFile t c, Rename t p])
                  \<and> (\<forall>e. r3 = Inl e \<longrightarrow>
                        res = Inl (SysError e) \<and> w' = snd (fs_unlink w3 t)
                        \<and> log w' = log w @ [WriteFileWx p c, WriteFile t c, Rename t p, Unlink t]
                        \<and> (fst (fs_unlink w3 t) = Inr () \<longrightarrow> nodes w' t = None))))))"
proof -
  obtain r1 w1 where wx: "fs_writeFile_wx w p c = (r1, w1)" by (cases "fs_writeFile_wx w p c")
  obtain r2 w2 where wr: "fs_writeFile w1 (tempPathOf p rnd) c = (r2, w2)"
    by (cases "fs_writeFile w1 (tempPathOf p rnd) c")
  obtain r3 w3 where rn: "fs_rename w2 (tempPathOf p rnd) p = (r3, w3)"
    by (cases "fs_rename w2 (tempPathOf p rnd) p")
  have l1: "log w1 = log w @ [WriteFileWx p c]"
    using log_fs_writeFile_wx [of w p c] wx by simp
  have l2: "log w2 = log w1 @ [WriteFile (tempPathOf p rnd) c]"
    using log_fs_writeFile [of w1 "tempPathOf p rnd" c] wr by simp
  have l3: "log w3 = log w2 @ [Rename (tempPathOf p rnd) p]"
    using log_fs_rename [of w2 "tempPathOf p rnd" p] rn by simp
  have ex: "nodes w p \<noteq> None \<longrightarrow> r1 = Inl EEXIST"
    using fs_writeFile_wx_exists [of w p c] wx by simp
  have oth: "nodes w1 (tempPathOf p rnd) = nodes w (tempPathOf p rnd)"
    using fs_writeFile_wx_other [of "tempPathOf p rnd" p w c] tempPathOf_neq [of p rnd] wx by simp
  show ?thesis
  proof (cases r1)
    case (Inr u)
    with wx l1 ex show ?thesis by (simp add: writeFileContent_def Let_def)
  next
    case (Inl e1)
    show ?thesis
    proof (cases "e1 = EEXIST")
      case False
      with Inl wx l1 ex oth show ?thesis by (simp add: writeFileContent_def Let_def)
    next
      case True
      show ?thesis
      proof (cases r2)
        case (Inl e2)
        with True \<open>r1 = Inl e1\<close> wx wr l1 l2 show ?thesis
          using replaceViaTemp_write_failed [of w1 "tempPathOf p rnd" c e2 w2 p]
                fs_unlink_removes [of w2 "tempPathOf p rnd"]
                log_fs_unlink [of w2 "tempPathOf p rnd"]
          by (simp add: writeFileContent_def Let_def)
      next
        case (Inr u2)
        show ?thesis
        proof (cases r3)
          case (Inl e3)
          with Inr True \<open>r1 = Inl e1\<close> wx wr rn l1 l2 l3 show ?thesis
            using replaceViaTemp_rename_failed [of w1 "tempPathOf p rnd" c u2 w2 p e3 w3]
                  fs_unlink_removes [of w3 "tempPathOf p rnd"]
                  log_fs_unlink [of w3 "tempPathOf p rnd"]
            by (simp add: writeFileContent_def Let_def)
        next
          case (Inr u3)
          with \<open>r2 = Inr u2\<close> True \<open>r1 = Inl e1\<close> wx wr rn l1 l2 l3 show ?thesis
            using replaceViaTemp_renamed [of w1 "tempPathOf p rnd" c u2 w2 p u3 w3]
            by (simp add: writeFileContent_def Let_def)
        qed
      qed
    qed
  qed
qed

theorem C5_witness:
  "(let (res, w') = writeFileContent rename_fails ''0f'' ''/allowed/a.txt'' ''new''
    in res = Inl (SysError EIO)
       \<and> nodes w' ''/allowed/a.txt.0f.tmp'' = None
       \<and> nodes w' ''/allowed/a.txt'' = Some (File ''a\<newline>b\<newline>c\<newline>d\<newline>e'')
       \<and> log w' = [WriteFileWx ''/allowed/a.txt'' ''new'', WriteFile ''/allowed/a.txt.0f.tmp'' ''new'',
                      Rename ''/allowed/a.txt.0f.tmp'' ''/allowed/a.txt'', Unlink ''/allowed/a.txt.0f.tmp''])
   \<and> (let (res, w') = writeFileContent demo_world ''0f'' ''/allowed/link'' ''new''
      in res = Inr ()
         \<and> nodes w' ''/allowed/link'' = Some (File ''new'')
         \<and> nodes w' ''/etc/passwd'' = None
         \<and> log w' = [WriteFileWx ''/allowed/link'' ''new'', WriteFile ''/allowed/link.0f.tmp'' ''new'',
                        Rename ''/allowed/link.0f.tmp'' ''/allowed/link''])"
  using C5_write_protocol [of "''/allowed/a.txt''" "''0f''" rename_fails "''new''"]
        C5_write_protocol [of "''/allowed/link''" "''0f''" demo_world "''new''"]
  by (simp add: writeFileContent_def replaceViaTemp_def fs_writeFile_wx_def fs_writeFile_def
        fs_rename_def fs_unlink_def tempPathOf_def logged_def rename_fails_def demo_world_def
        SYMLOOP_MAX_def eval_nat_numeral Let_def)

lemma log_fs_readFile: "log (snd (fs_readFile w p)) = log w @ [ReadFile p]"
  by (simp add: fs_readFile_def split: sum.splits node.splits)

lemma nodes_fs_readFile: "nodes (snd (fs_readFile w p)) = nodes w"
  by (simp add: fs_readFile_def logged_def split: sum.splits node.splits)

lemma includes_str_sublist: "includes_str s sub = sublist sub s"
  unfolding includes_str_def
  by (induction s) (auto simp: sublist_Cons_right)

lemma isMatch_nth:
  "length ws = length oldLines \<Longrightarrow>
   isMatch oldLines ws = (\<forall>j < length oldLines. trim (oldLines ! j) = trim (ws ! j))"
  by (auto simp: isMatch_def list_all2_conv_all_nth)

lemma matchWindow_None:
  assumes "\<forall>k. i \<le> k \<and> k + length oldLines \<le> length contentLines \<longrightarrow>
             \<not> isMatch oldLines (take (length oldLines) (drop k contentLines))"
  shows "matchWindow contentLines oldLines normalizedNew i = None"
  using assms
proof (induction contentLines oldLines normalizedNew i rule: matchWindow.induct)
  case (1 contentLines oldLines normalizedNew i)
  show ?case
  proof (cases "int i \<le> int (length contentLines) - int (length oldLines)")
    case False
    then show ?thesis by (simp add: matchWindow.simps [of contentLines oldLines normalizedNew i])
  next
    case True
    then have le: "i + length oldLines \<le> length contentLines" by simp
    with "1.prems" have nm: "\<not> isMatch oldLines (take (length oldLines) (drop i contentLines))"
      by simp
    have "matchWindow contentLines oldLines normalizedNew (i + 1) = None"
      using "1.IH" [OF True refl nm] "1.prems" by simp
    with True nm show ?thesis
      by (simp add: matchWindow.simps [of contentLines oldLines normalizedNew i])
  qed
qed

lemma no_window_None:
  assumes "\<forall>i. i + length oldLines \<le> length contentLines \<longrightarrow>
             (\<exists>j < length oldLines. trim (oldLines ! j) \<noteq> trim (contentLines ! (i + j)))"
  shows "matchWindow contentLines oldLines normalizedNew 0 = None"
proof (rule matchWindow_None, intro allI impI)
  fix k
  assume k: "0 \<le> k \<and> k + length oldLines \<le> length contentLines"
  then have len: "length (take (length oldLines) (drop k contentLines)) = length oldLines"
    by simp
  from assms k obtain j where j: "j < length oldLines"
      "trim (oldLines ! j) \<noteq> trim (contentLines ! (k + j))" by blast
  with k have "trim (oldLines ! j) \<noteq> trim (take (length oldLines) (drop k contentLines) ! j)"
    by simp
  with j(1) show "\<not> isMatch oldLines (take (length oldLines) (drop k contentLines))"
    unfolding isMatch_nth [OF len] by blast
qed

lemma applyEdits_append:
  "applyEdits c (pre @ es) =
     (case applyEdits c pre of Inl err \<Rightarrow> Inl err | Inr c' \<Rightarrow> applyEdits c' es)"
  by (induction pre arbitrary: c) (auto split: sum.splits)

lemma applyFileEdits_dry:
  "nodes (snd (applyFileEdits C patch w rnd p es True)) = nodes w
   \<and> log (snd (applyFileEdits C patch w rnd p es True)) = log w @ [ReadFile p]"
  using log_fs_readFile [of w p] nodes_fs_readFile [of w p]
  by (cases "fs_readFile w p") (auto simp: applyFileEdits_def Let_def split: sum.splits)

text \<open>
  C6. Let an edit of the list have an \<open>oldText\<close> that, after the edits before it
  have been applied to the decoded content, is neither a substring of the current content
  nor matched by any window of its lines compared after trimming (white space as
  JavaScript has it). Then \<open>applyFileEdits\<close> fails with
  the no-match error carrying that \<open>oldText\<close>; the only file-system call made is the
  initial read, and every node of the file system is as before. With \<open>dryRun\<close> set,
  whatever the edits, the only call is the read and no node changes.
\<close>

theorem C6_no_match_no_write:
  assumes "fs_readFile w p = (Inr raw, w1)"
      and "edits = pre @ e # post"
      and "applyEdits (js_normalizeLineEndings (decode C raw)) pre = Inr cur"
      and "\<not> sublist (js_normalizeLineEndings (oldText e)) cur"
      and "\<forall>i. i + length (js_split_lines (js_normalizeLineEndings (oldText e))) \<le> length (js_split_lines cur) \<longrightarrow>
             (\<exists>j < length (js_split_lines (js_normalizeLineEndings (oldText e))).
                trim (js_split_lines (js_normalizeLineEndings (oldText e)) ! j)
                  \<noteq> trim (js_split_lines cur ! (i + j)))"
  shows "applyFileEdits C patch w rnd p edits dryRun = (Inl (NoMatchFound (oldText e)), w1)
       \<and> nodes w1 = nodes w \<and> log w1 = log w @ [ReadFile p]
       \<and> (\<forall>es. nodes (snd (applyFileEdits C patch w rnd p es True)) = nodes w
                \<and> log (snd (applyFileEdits C patch w rnd p es True)) = log w @ [ReadFile p])"
proof -
  have "applyEdit cur e = Inl (NoMatchFound (oldText e))"
    using assms(4) no_window_None [OF assms(5)]
    by (simp add: applyEdit_def includes_str_sublist Let_def)
  then have "applyEdits (js_normalizeLineEndings (decode C raw)) edits = Inl (NoMatchFound (oldText e))"
    using assms(2,3) by (simp add: applyEdits_append)
  then have "applyFileEdits C patch w rnd p edits dryRun = (Inl (NoMatchFound (oldText e)), w1)"
    using assms(1) by (simp add: applyFileEdits_def)
  moreover have "nodes w1 = nodes w" "log w1 = log w @ [ReadFile p]"
    using log_fs_readFile [of w p] nodes_fs_readFile [of w p] assms(1) by simp_all
  ultimately show ?thesis using applyFileEdits_dry by blast
qed

theorem C6_witness:
  "applyFileEdits ascii demo_patch demo_world ''0f'' ''/allowed/a.txt''
       [\<lparr>oldText = lit ''b'', newText = lit ''B''\<rparr>, \<lparr>oldText = lit ''b'', newText = lit ''X''\<rparr>] False
     = (Inl (NoMatchFound (lit ''b'')), logged (ReadFile ''/allowed/a.txt'') demo_world)
   \<and> nodes (logged (ReadFile ''/allowed/a.txt'') demo_world) ''/allowed/a.txt''
       = Some (File ''a\<newline>b\<newline>c\<newline>d\<newline>e'')"
proof -
  let ?e = "\<lparr>oldText = lit ''b'', newText = lit ''X''\<rparr>"
  let ?cur = "lit ''a\<newline>B\<newline>c\<newline>d\<newline>e''"
  have rd: "fs_readFile demo_world ''/allowed/a.txt''
              = (Inr ''a\<newline>b\<newline>c\<newline>d\<newline>e'', logged (ReadFile ''/allowed/a.txt'') demo_world)"
    by (simp add: fs_readFile_def lookup_def demo_world_def SYMLOOP_MAX_def eval_nat_numeral logged_def)
  have cur: "applyEdits (js_normalizeLineEndings (decode ascii ''a\<newline>b\<newline>c\<newline>d\<newline>e''))
               [\<lparr>oldText = lit ''b'', newText = lit ''B''\<rparr>] = Inr ?cur"
    by (simp add: applyEdit_def includes_str_def replace_def ascii_def lit_def Let_def)
  have nex: "\<not> sublist (js_normalizeLineEndings (oldText ?e)) ?cur"
    by (simp add: includes_str_sublist [symmetric] includes_str_def lit_def)
  have sl: "js_split_lines ?cur = [lit ''a'', lit ''B'', lit ''c'', lit ''d'', lit ''e'']"
    by (simp add: lit_def)
  have ol: "js_split_lines (js_normalizeLineEndings (oldText ?e)) = [lit ''b'']"
    by (simp add: lit_def)
  have nwin: "\<forall>i. i + length (js_split_lines (js_normalizeLineEndings (oldText ?e)))
                     \<le> length (js_split_lines ?cur) \<longrightarrow>
             (\<exists>j < length (js_split_lines (js_normalizeLineEndings (oldText ?e))).
                trim (js_split_lines (js_normalizeLineEndings (oldText ?e)) ! j)
                  \<noteq> trim (js_split_lines ?cur ! (i + j)))"
  proof (intro allI impI)
    fix i
    assume "i + length (js_split_lines (js_normalizeLineEndings (oldText ?e)))
                     \<le> length (js_split_lines ?cur)"
    then have "i < 5" unfolding sl ol by simp
    then have "i = 0 \<or> i = 1 \<or> i = 2 \<or> i = 3 \<or> i = 4" by arith
    then have "trim (lit ''b'') \<noteq> trim ([lit ''a'', lit ''B'', lit ''c'', lit ''d'', lit ''e''] ! i)"
      by (auto simp: trim_def isWhiteSpace_def lit_def)
    then show "\<exists>j < length (js_split_lines (js_normalizeLineEndings (oldText ?e))).
                trim (js_split_lines (js_normalizeLineEndings (oldText ?e)) ! j)
                  \<noteq> trim (js_split_lines ?cur ! (i + j))"
      unfolding sl ol by simp
  qed
  show ?thesis
    using C6_no_match_no_write [OF rd _ cur nex nwin, of _ "[]" demo_patch "''0f''" False]
    by (simp add: logged_def demo_world_def)
qed

lemma applyEdit_trims_no_break_space:
  "applyEdit [102, 111, 111, 0xA0, 10, 98, 97, 114] \<lparr>oldText = lit '' foo'', newText = lit ''x''\<rparr>
     = Inr (lit ''x\<newline>bar'')"
  by (simp add: applyEdit_def includes_str_def isMatch_def trim_def isWhiteSpace_def reindent_def
        indentOf_def trimStart_def lit_def Let_def)

lemma follow_regular: "m p = Some (File c) \<Longrightarrow> follow m SYMLOOP_MAX p = Inr p"
  by (simp add: SYMLOOP_MAX_def eval_nat_numeral)

lemma tail_abcde:
  assumes "nodes w p = Some (File ''a\<newline>b\<newline>c\<newline>d\<newline>e'')" and "\<forall>c. faults w c = None"
  shows "fst (tailFile w p 3) = Inr ''c\<newline>d\<newline>e''"
  using assms follow_regular [of "nodes w" p]
  by (simp add: tailFile_def fs_stat_def lookup_def fs_open_def logged_def fs_read_def
        finally_close_def fs_close_def CHUNK_SIZE_def LF_def CR_def Let_def)

lemma head_abcde:
  assumes "nodes w p = Some (File ''a\<newline>b\<newline>c\<newline>d\<newline>e'')" and "\<forall>c. faults w c = None"
  shows "fst (headFile w p 2) = Inr ''a\<newline>b''"
  using assms follow_regular [of "nodes w" p]
  by (simp add: headFile_def fs_open_def logged_def fs_read_def
        finally_close_def fs_close_def LF_def CR_def Let_def)

lemma tail_empty:
  assumes "fst (fs_stat w p) = Inr st" and "size st = 0"
  shows "tailFile w p n = (Inr [], logged (Stat p) w)"
  using assms
  by (cases "fs_stat w p") (auto simp: tailFile_def fs_stat_def split: sum.splits node.splits)

text \<open>
  C9. On a regular file holding \<open>a\<close>, \<open>b\<close>, \<open>c\<close>, \<open>d\<close>, \<open>e\<close> joined by
  newlines, with no call failing, \<open>tailFile\<close> with 3 returns the last three lines
  joined by newlines and \<open>headFile\<close> with 2 the first two. On a file whose
  \<open>stat\<close> reports size zero, \<open>tailFile\<close> returns the empty string and the only
  file-system call it has made is that \<open>stat\<close>: the file is never opened.
\<close>

theorem C9_tail_head:
  "(nodes w p = Some (File ''a\<newline>b\<newline>c\<newline>d\<newline>e'') \<and> (\<forall>c. faults w c = None) \<longrightarrow>
      fst (tailFile w p 3) = Inr ''c\<newline>d\<newline>e'' \<and> fst (headFile w p 2) = Inr ''a\<newline>b'')
   \<and> (\<forall>st. fst (fs_stat w p) = Inr st \<and> size st = 0 \<longrightarrow>
          tailFile w p n = (Inr [], logged (Stat p) w)
          \<and> log (snd (tailFile w p n)) = log w @ [Stat p])"
  using tail_abcde [of w p] head_abcde [of w p] tail_empty [of w p _ n]
  by (auto simp: logged_def)

theorem C9_witness:
  "fst (tailFile demo_world ''/allowed/a.txt'' 3) = Inr ''c\<newline>d\<newline>e''
   \<and> fst (headFile demo_world ''/allowed/a.txt'' 2) = Inr ''a\<newline>b''
   \<and> fst (tailFile demo_world ''/allowed/empty.txt'' 5) = Inr []
   \<and> log (snd (tailFile demo_world ''/allowed/empty.txt'' 5)) = [Stat ''/allowed/empty.txt'']"
  using C9_tail_head [of demo_world "''/allowed/a.txt''" 5]
        C9_tail_head [of demo_world "''/allowed/empty.txt''" 5]
  by (simp add: demo_world_def fs_stat_def lookup_def SYMLOOP_MAX_def eval_nat_numeral
        logged_def)



lemma same_fs_refl [simp]: "same_fs w w"
  by (simp add: same_fs_def)

lemma same_fs_logged [simp]: "same_fs (logged c w) w0 = same_fs w w0"
  by (simp add: same_fs_def logged_def)







lemma advanced_log:
  "search_inv c w0 (s, w) \<Longrightarrow> same_fs w' w0 \<Longrightarrow> advanced c w0 (s, w) (s, w') 0"
  by (auto simp: advanced_def search_inv_def)












lemma matchesPattern_cap [simp]:
  "matchesPattern test (opts\<lparr>maxResults := c\<rparr>) = matchesPattern test opts"
  by (simp add: matchesPattern_def fun_eq_iff)

lemma matchingLines_cap [simp]:
  "matchingLines test (opts\<lparr>maxResults := c\<rparr>) = matchingLines test opts"
  by (simp add: matchingLines_def fun_eq_iff)

lemma availInFile_cap [simp]:
  "availInFile E L dirs (opts\<lparr>maxResults := c\<rparr>) vsp test w0 filePath
     = availInFile E L dirs opts vsp test w0 filePath"
  by (simp add: availInFile_def split: sum.splits)






lemma effectivePattern_cap [simp]:
  "effectivePattern (opts\<lparr>maxResults := c\<rparr>) = effectivePattern opts"
  by (simp add: effectivePattern_def)

lemma matchCount_Nil [simp]: "matchCount [] = 0"
  by (simp add: matchCount_def)




lemma validatePath_log:
  "\<exists>l. log (snd (validatePath E dirs w p)) = log w @ l \<and> (\<forall>c \<in> set l. \<exists>q. c = Realpath q)"
proof -
  have "log (snd (validatePath E dirs w p)) = log w
        \<or> log (snd (validatePath E dirs w p)) = log w @ [Realpath (absolute_of E p)]
        \<or> log (snd (validatePath E dirs w p))
            = log w @ [Realpath (absolute_of E p), Realpath (dirname E (absolute_of E p))]"
    by (simp add: validatePath_def validateParent_def fs_realpath_def Let_def
          split: sum.splits prod.splits)
  then show ?thesis
  proof (elim disjE)
    assume "log (snd (validatePath E dirs w p)) = log w"
    then show ?thesis by simp
  next
    assume "log (snd (validatePath E dirs w p)) = log w @ [Realpath (absolute_of E p)]"
    then show ?thesis by simp
  next
    assume "log (snd (validatePath E dirs w p))
            = log w @ [Realpath (absolute_of E p), Realpath (dirname E (absolute_of E p))]"
    then show ?thesis by simp
  qed
qed

lemma search_log:
  fixes t :: dtree and es :: dlist
  shows "\<exists>l. log (snd (snd (search E L dirs rootPath pat ex currentPath t rw)))
               = log (snd rw) @ Readdir currentPath # l"
    and "\<exists>l. log (snd (searchEntries E L dirs rootPath pat ex currentPath es rw))
               = log (snd rw) @ l"
proof (induction t and es arbitrary: rw currentPath and rw currentPath)
  case (Unreadable e)
  show ?case by simp
next
  case (Entries entries)
  from Entries [of currentPath "(fst rw, logged (Readdir currentPath) (snd rw))"]
  show ?case by simp
next
  case DNil
  show ?case by simp
next
  case (DCons name k sub rest)
  obtain v w1 where vp: "validatePath E dirs (snd rw) (join E currentPath name) = (v, w1)"
    by (cases "validatePath E dirs (snd rw) (join E currentPath name)")
  from validatePath_log [of E dirs "snd rw" "join E currentPath name"] vp
  obtain l1 where l1: "log w1 = log (snd rw) @ l1" by auto
  have step: "\<exists>l. log (snd (searchEntries E L dirs rootPath pat ex currentPath rest (r, w1)))
                  = log (snd rw) @ l" for r
    using DCons.IH(2) [of currentPath "(r, w1)"] l1 by auto
  have deep: "\<exists>l. log (snd (searchEntries E L dirs rootPath pat ex currentPath rest
                  (snd (search E L dirs rootPath pat ex (join E currentPath name) sub (r, w1)))))
                  = log (snd rw) @ l" for r
  proof -
    from DCons.IH(1) [of "join E currentPath name" "(r, w1)"] obtain l2 where
      "log (snd (snd (search E L dirs rootPath pat ex (join E currentPath name) sub (r, w1))))
         = log w1 @ Readdir (join E currentPath name) # l2" by auto
    moreover from DCons.IH(2) [of currentPath
        "snd (search E L dirs rootPath pat ex (join E currentPath name) sub (r, w1))"]
    obtain l3 where
      "log (snd (searchEntries E L dirs rootPath pat ex currentPath rest
                  (snd (search E L dirs rootPath pat ex (join E currentPath name) sub (r, w1)))))
         = log (snd (snd (search E L dirs rootPath pat ex (join E currentPath name) sub (r, w1)))) @ l3"
      by auto
    ultimately show ?thesis using l1 by simp
  qed
  show ?case
    using vp step deep by (simp add: Let_def split: sum.splits)
qed


lemma filterPaths_log:
  "\<exists>l. log (snd (filterPaths E L dirs rootPath ex paths rw)) = log (snd rw) @ l
        \<and> (\<forall>c \<in> set l. \<exists>q. c = Realpath q)"
proof (induction paths arbitrary: rw)
  case Nil
  show ?case by simp
next
  case (Cons filePath rest)
  obtain v w1 where vp: "validatePath E dirs (snd rw) filePath = (v, w1)"
    by (cases "validatePath E dirs (snd rw) filePath")
  from validatePath_log [of E dirs "snd rw" filePath] vp
  obtain l1 where l1: "log w1 = log (snd rw) @ l1" "\<forall>c \<in> set l1. \<exists>q. c = Realpath q"
    by auto
  have step: "\<exists>l. log (snd (filterPaths E L dirs rootPath ex rest (r, w1))) = log (snd rw) @ l
                  \<and> (\<forall>c \<in> set l. \<exists>q. c = Realpath q)" for r
  proof -
    from Cons [of "(r, w1)"] obtain l2 where
      "log (snd (filterPaths E L dirs rootPath ex rest (r, w1))) = log w1 @ l2"
      "\<forall>c \<in> set l2. \<exists>q. c = Realpath q" by auto
    with l1 have "log (snd (filterPaths E L dirs rootPath ex rest (r, w1))) = log (snd rw) @ (l1 @ l2)
                  \<and> (\<forall>c \<in> set (l1 @ l2). \<exists>q. c = Realpath q)" by auto
    then show ?thesis by blast
  qed
  show ?case
    using vp step Cons [of rw] by (simp add: Let_def split: sum.splits)
qed

lemma isPlocateAvailable_log:
  "snd (isPlocateAvailable P w) = logged (Access (plocateDb P)) w"
  by (simp add: isPlocateAvailable_def fs_access_def split: sum.splits exec_result.splits)

lemma prepare_recursive_js: "preparePatternForPlocate ''**/*.js'' = Some ''*.js''"
  by (simp add: preparePatternForPlocate_def removeLeadingStars_def removeTrailingStars_def
        isSlash_def includes_str_def suffix_def Let_def)

lemma searchFilesWithValidation_available:
  assumes "isPlocateAvailable P w = (True, w1)"
      and "preparePatternForPlocate pat = Some plocatePattern"
  shows "searchFilesWithValidation C E L P dirs w tree rootPath pat ex
           = (case execFile P ''plocate''
                     [''--database'', plocateDb P, ''--limit'', ''10000'', plocatePattern] of
                Stdout out \<Rightarrow>
                  (Inr (fst (filterPaths E L dirs rootPath ex (allPathsOf C out) ([], w1))),
                   snd (filterPaths E L dirs rootPath ex (allPathsOf C out) ([], w1)))
              | Failed c m \<Rightarrow>
                  if c = ExitStatus 1 then (Inr [], w1)
                  else (case search E L dirs rootPath pat ex rootPath tree ([], w1) of
                          (Some e, found, w') \<Rightarrow> (Inl (SysError e), w')
                        | (None, found, w') \<Rightarrow> (Inr found, w')))"
  using assms
  by (simp add: searchFilesWithValidation_def plocateTier_def split: prod.splits exec_result.splits)

lemma searchFilesWithValidation_unavailable:
  assumes "fst (isPlocateAvailable P w) = False \<or> preparePatternForPlocate pat = None"
  shows "searchFilesWithValidation C E L P dirs w tree rootPath pat ex
           = (case search E L dirs rootPath pat ex rootPath tree ([], snd (isPlocateAvailable P w)) of
                (Some e, found, w') \<Rightarrow> (Inl (SysError e), w')
              | (None, found, w') \<Rightarrow> (Inr found, w'))"
  using assms
  by (cases "isPlocateAvailable P w")
     (auto simp: searchFilesWithValidation_def plocateTier_def split: prod.splits option.splits)

text \<open>
  C7. Let the index be available (the database can be accessed and
  \<open>plocate --version\<close> runs) and the pattern be one the index can take, as the
  recursive \<open>**/*.js\<close> is, sent as \<open>*.js\<close>. When the query exits with status 1,
  \<open>searchFilesWithValidation\<close> returns the empty list as a result and the only
  file-system call it has made is the access to the database: no directory is read. When
  the query fails in any other way (another exit status, a command that cannot be
  started, a run killed at the timeout, whatever the message), the function returns
  what the walk from \<open>rootPath\<close> returns, and the walk starts by reading that
  directory. When the query succeeds, the result comes from its output and the only
  further calls are the \<open>realpath\<close> calls of \<open>validatePath\<close>: the walk is not
  invoked. When the index is not available (no database, or no \<open>plocate\<close> to run) or
  the pattern is not one it can take, the function is the walk.
\<close>

theorem C7_no_matches_without_walk:
  "(isPlocateAvailable P w = (True, w1) \<and> preparePatternForPlocate pat = Some plocatePattern \<longrightarrow>
      (\<forall>m. execFile P ''plocate'' [''--database'', plocateDb P, ''--limit'', ''10000'', plocatePattern]
               = Failed (ExitStatus 1) m \<longrightarrow>
            searchFilesWithValidation C E L P dirs w tree rootPath pat ex = (Inr [], w1)
            \<and> log w1 = log w @ [Access (plocateDb P)])
       \<and> (\<forall>c m. execFile P ''plocate'' [''--database'', plocateDb P, ''--limit'', ''10000'', plocatePattern]
               = Failed c m \<and> c \<noteq> ExitStatus 1 \<longrightarrow>
            searchFilesWithValidation C E L P dirs w tree rootPath pat ex
              = (case search E L dirs rootPath pat ex rootPath tree ([], w1) of
                   (Some e, found, w') \<Rightarrow> (Inl (SysError e), w')
                 | (None, found, w') \<Rightarrow> (Inr found, w'))
            \<and> (\<exists>l. log (snd (searchFilesWithValidation C E L P dirs w tree rootPath pat ex))
                      = log w1 @ Readdir rootPath # l))
       \<and> (\<forall>out. execFile P ''plocate'' [''--database'', plocateDb P, ''--limit'', ''10000'', plocatePattern]
               = Stdout out \<longrightarrow>
            fst (searchFilesWithValidation C E L P dirs w tree rootPath pat ex)
              = Inr (fst (filterPaths E L dirs rootPath ex (allPathsOf C out) ([], w1)))
            \<and> (\<exists>l. log (snd (searchFilesWithValidation C E L P dirs w tree rootPath pat ex))
                      = log w1 @ l \<and> (\<forall>c \<in> set l. \<exists>q. c = Realpath q))))
   \<and> (fst (isPlocateAvailable P w) = False \<or> preparePatternForPlocate pat = None \<longrightarrow>
        searchFilesWithValidation C E L P dirs w tree rootPath pat ex
          = (case search E L dirs rootPath pat ex rootPath tree ([], snd (isPlocateAvailable P w)) of
               (Some e, found, w') \<Rightarrow> (Inl (SysError e), w')
             | (None, found, w') \<Rightarrow> (Inr found, w')))
   \<and> preparePatternForPlocate ''**/*.js'' = Some ''*.js''"
proof (intro conjI allI impI)
  fix m
  assume av: "isPlocateAvailable P w = (True, w1) \<and> preparePatternForPlocate pat = Some plocatePattern"
    and "execFile P ''plocate'' [''--database'', plocateDb P, ''--limit'', ''10000'', plocatePattern]
            = Failed (ExitStatus 1) m"
  then show "searchFilesWithValidation C E L P dirs w tree rootPath pat ex = (Inr [], w1)"
    using searchFilesWithValidation_available [of P w w1 pat plocatePattern C E L dirs tree rootPath ex]
    by simp
  from av isPlocateAvailable_log [of P w]
  show "log w1 = log w @ [Access (plocateDb P)]" by simp
next
  fix c m
  assume av: "isPlocateAvailable P w = (True, w1) \<and> preparePatternForPlocate pat = Some plocatePattern"
    and f: "execFile P ''plocate'' [''--database'', plocateDb P, ''--limit'', ''10000'', plocatePattern]
            = Failed c m \<and> c \<noteq> ExitStatus 1"
  then show walk: "searchFilesWithValidation C E L P dirs w tree rootPath pat ex
              = (case search E L dirs rootPath pat ex rootPath tree ([], w1) of
                   (Some e, found, w') \<Rightarrow> (Inl (SysError e), w')
                 | (None, found, w') \<Rightarrow> (Inr found, w'))"
    using searchFilesWithValidation_available [of P w w1 pat plocatePattern C E L dirs tree rootPath ex]
    by simp
  from search_log(1) [of E L dirs rootPath pat ex rootPath tree "([], w1)"]
  show "\<exists>l. log (snd (searchFilesWithValidation C E L P dirs w tree rootPath pat ex))
                      = log w1 @ Readdir rootPath # l"
    unfolding walk by (auto split: prod.splits option.splits)
next
  fix out
  assume av: "isPlocateAvailable P w = (True, w1) \<and> preparePatternForPlocate pat = Some plocatePattern"
    and s: "execFile P ''plocate'' [''--database'', plocateDb P, ''--limit'', ''10000'', plocatePattern]
            = Stdout out"
  then have r: "searchFilesWithValidation C E L P dirs w tree rootPath pat ex
      = (Inr (fst (filterPaths E L dirs rootPath ex (allPathsOf C out) ([], w1))),
         snd (filterPaths E L dirs rootPath ex (allPathsOf C out) ([], w1)))"
    using searchFilesWithValidation_available [of P w w1 pat plocatePattern C E L dirs tree rootPath ex]
    by simp
  then show "fst (searchFilesWithValidation C E L P dirs w tree rootPath pat ex)
              = Inr (fst (filterPaths E L dirs rootPath ex (allPathsOf C out) ([], w1)))"
    by simp
  from filterPaths_log [of E L dirs rootPath ex "allPathsOf C out" "([], w1)"]
  show "\<exists>l. log (snd (searchFilesWithValidation C E L P dirs w tree rootPath pat ex))
                      = log w1 @ l \<and> (\<forall>c \<in> set l. \<exists>q. c = Realpath q)"
    unfolding r by simp
next
  assume "fst (isPlocateAvailable P w) = False \<or> preparePatternForPlocate pat = None"
  then show "searchFilesWithValidation C E L P dirs w tree rootPath pat ex
          = (case search E L dirs rootPath pat ex rootPath tree ([], snd (isPlocateAvailable P w)) of
               (Some e, found, w') \<Rightarrow> (Inl (SysError e), w')
             | (None, found, w') \<Rightarrow> (Inr found, w'))"
    by (rule searchFilesWithValidation_unavailable)
next
  show "preparePatternForPlocate ''**/*.js'' = Some ''*.js''"
    by (rule prepare_recursive_js)
qed

theorem C7_witness:
  "searchFilesWithValidation ascii posix demo_libs (plocate_exits 1) [''/allowed''] indexed_world
       js_tree ''/allowed'' ''**/*.js'' []
     = (Inr [], logged (Access ''/var/lib/plocate/plocate.db'') indexed_world)
   \<and> fst (searchFilesWithValidation ascii posix demo_libs (plocate_exits 2) [''/allowed''] indexed_world
            js_tree ''/allowed'' ''**/*.js'' []) = Inr [''/allowed/app.js'']
   \<and> log (snd (searchFilesWithValidation ascii posix demo_libs (plocate_exits 2) [''/allowed''] indexed_world
            js_tree ''/allowed'' ''**/*.js'' []))
       = [Access ''/var/lib/plocate/plocate.db'', Readdir ''/allowed'', Realpath ''/allowed/app.js'']"
proof -
  have av: "isPlocateAvailable (plocate_exits s) indexed_world
              = (True, logged (Access ''/var/lib/plocate/plocate.db'') indexed_world)" for s
    by (simp add: isPlocateAvailable_def fs_access_def lookup_def plocateDb_def plocate_exits_def
          indexed_world_def demo_world_def SYMLOOP_MAX_def eval_nat_numeral logged_def)
  note one = C7_no_matches_without_walk [of "plocate_exits 1" indexed_world
      "logged (Access ''/var/lib/plocate/plocate.db'') indexed_world" "''**/*.js''" "''*.js''"
      ascii posix demo_libs "[''/allowed'']" js_tree "''/allowed''" "[]"]
  note two = C7_no_matches_without_walk [of "plocate_exits 2" indexed_world
      "logged (Access ''/var/lib/plocate/plocate.db'') indexed_world" "''**/*.js''" "''*.js''"
      ascii posix demo_libs "[''/allowed'']" js_tree "''/allowed''" "[]"]
  from one av [of 1] prepare_recursive_js have "searchFilesWithValidation ascii posix demo_libs (plocate_exits 1) [''/allowed'']
       indexed_world js_tree ''/allowed'' ''**/*.js'' []
     = (Inr [], logged (Access ''/var/lib/plocate/plocate.db'') indexed_world)"
    by (simp add: plocate_exits_def plocateDb_def)
  moreover from two av [of 2] prepare_recursive_js have "searchFilesWithValidation ascii posix demo_libs (plocate_exits 2) [''/allowed'']
       indexed_world js_tree ''/allowed'' ''**/*.js'' []
     = (case search posix demo_libs [''/allowed''] ''/allowed'' ''**/*.js'' [] ''/allowed'' js_tree
               ([], logged (Access ''/var/lib/plocate/plocate.db'') indexed_world) of
          (Some e, found, w') \<Rightarrow> (Inl (SysError e), w')
        | (None, found, w') \<Rightarrow> (Inr found, w'))"
    by (simp add: plocate_exits_def plocateDb_def)
  ultimately show ?thesis
    by (simp add: validatePath_def fs_realpath_def absolute_of_def
        isPathWithinAllowedDirectories_def posix_def demo_libs_def indexed_world_def
        demo_world_def demo_realpath_def js_tree_def logged_def posix_relative_def
        suffix_def Let_def)
qed

end
